theory Spec2Isabelle
  imports Complex_Main "HOL-Library.Multiset"
begin

section \<open>Bids, transactions and the ledger\<close>

text \<open>
  The pricing mechanisms of \<^verbatim>\<open>BM_LEM\<close> work on a table of bids (one row per bid, labelled
  by the bid's index) and append transactions to a transaction manager. A row carries the
  columns the mechanisms read: \<^verbatim>\<open>buying\<close>, \<^verbatim>\<open>quantity\<close> and \<^verbatim>\<open>price\<close>.
  Quantities and prices are modelled as exact rationals. The table is the list of its
  rows in table order.
\<close>

record bid =
  idx :: nat
  buying :: bool
  quantity :: rat
  price :: rat

record transaction =
  tx_bid :: nat
  tx_quantity :: rat
  tx_price :: rat
  tx_source :: int
  tx_active :: bool

text \<open>\<^verbatim>\<open>trans.add_transaction(bid, quantity, price, source, active)\<close> appends one row.\<close>

definition add_transaction ::
  "transaction list \<Rightarrow> nat \<Rightarrow> rat \<Rightarrow> rat \<Rightarrow> int \<Rightarrow> bool \<Rightarrow> transaction list" where
  "add_transaction trs b q p s a =
     trs @ [\<lparr>tx_bid = b, tx_quantity = q, tx_price = p, tx_source = s, tx_active = a\<rparr>]"

text \<open>The quantity recorded against one bid, and the quantity of a whole ledger.\<close>

definition filled :: "transaction list \<Rightarrow> nat \<Rightarrow> rat" where
  "filled trs i = sum_list (map tx_quantity (filter (\<lambda>t. tx_bid t = i) trs))"

definition ledger_quantity :: "transaction list \<Rightarrow> rat" where
  "ledger_quantity trs = sum_list (map tx_quantity trs)"

text \<open>The transactions of a ledger recorded against the bids of one side of a table.\<close>

definition side_of :: "bid list \<Rightarrow> bool \<Rightarrow> transaction list \<Rightarrow> transaction list" where
  "side_of bids b trs =
     filter (\<lambda>t. tx_bid t \<in> idx ` set (filter (\<lambda>r. buying r = b) bids)) trs"

text \<open>
  \<^verbatim>\<open>round(x, 4)\<close>: the nearest multiple of \<open>1/10000\<close>, a tie going to the even one.
\<close>

definition py_round4 :: "rat \<Rightarrow> rat" where
  "py_round4 x =
     (let y = x * 10000; f = \<lfloor>y\<rfloor>; d = y - of_int f
      in of_int (if d < 1/2 then f else if 1/2 < d then f + 1
                 else if even f then f else f + 1) / 10000)"

section \<open>The uniform-price clearing (\<^verbatim>\<open>pricing_UP.py\<close>)\<close>

definition demand_qty :: "bid list \<Rightarrow> rat \<Rightarrow> rat" where
  "demand_qty buyers p = sum_list (map quantity (filter (\<lambda>b. p \<le> price b) buyers))"

definition supply_qty :: "bid list \<Rightarrow> rat \<Rightarrow> rat" where
  "supply_qty sellers p = sum_list (map quantity (filter (\<lambda>b. price b \<le> p) sellers))"

definition traded_qty :: "bid list \<Rightarrow> bid list \<Rightarrow> rat \<Rightarrow> rat" where
  "traded_qty buyers sellers p = min (demand_qty buyers p) (supply_qty sellers p)"

text \<open>\<^verbatim>\<open>sorted(set(buyers['price']).union(sellers['price']))\<close>\<close>

definition candidate_prices :: "bid list \<Rightarrow> bid list \<Rightarrow> rat list" where
  "candidate_prices buyers sellers = sort (remdups (map price buyers @ map price sellers))"

text \<open>
  The \<^verbatim>\<open>for p in candidate_prices\<close> loop, on the pair
  \<^verbatim>\<open>(best_price, best_quantity)\<close>; \<^verbatim>\<open>best_price = None\<close> is \<open>None\<close>.
\<close>

fun scan_candidates ::
  "bid list \<Rightarrow> bid list \<Rightarrow> rat list \<Rightarrow> rat option \<times> rat \<Rightarrow> rat option \<times> rat" where
  "scan_candidates buyers sellers [] (best_price, best_quantity) = (best_price, best_quantity)"
| "scan_candidates buyers sellers (p # ps) (best_price, best_quantity) =
     (let traded = traded_qty buyers sellers p
      in if best_quantity < traded
         then scan_candidates buyers sellers ps (Some p, traded)
         else scan_candidates buyers sellers ps (best_price, best_quantity))"

text \<open>
  \<^verbatim>\<open>find_clearing_price_and_quantity\<close> returns the pair
  \<^verbatim>\<open>(best_quantity, best_price)\<close>, or \<^verbatim>\<open>(None, None)\<close>.
\<close>

definition find_clearing_price_and_quantity :: "bid list \<Rightarrow> rat option \<times> rat option" where
  "find_clearing_price_and_quantity bids =
     (let buyers = filter buying bids;
          sellers = filter (\<lambda>b. \<not> buying b) bids
      in if buyers = [] \<or> sellers = [] then (None, None)
         else case scan_candidates buyers sellers (candidate_prices buyers sellers) (None, 0) of
                (best_price, best_quantity) \<Rightarrow>
                  if best_quantity = 0 then (None, None)
                  else (Some best_quantity, best_price))"

text \<open>
  The two trade loops of \<^verbatim>\<open>uniform_price_mechanism\<close> have the same body: walk the rows
  of one side in sorted order with \<^verbatim>\<open>qty_left\<close>, skip a row whose share is not positive,
  stop when nothing is left.
\<close>

fun execute_trades ::
  "rat \<Rightarrow> rat \<Rightarrow> bid list \<Rightarrow> transaction list \<Rightarrow> transaction list" where
  "execute_trades clearing_price qty_left [] trs = trs"
| "execute_trades clearing_price qty_left (row # rows) trs =
     (let q = min (quantity row) qty_left
      in if q \<le> 0 then execute_trades clearing_price qty_left rows trs
         else let trs' = add_transaction trs (idx row) q clearing_price (- 1) False;
                  qty_left' = qty_left - q
              in if qty_left' \<le> 0 then trs'
                 else execute_trades clearing_price qty_left' rows trs')"

record up_result =
  clearing_quantity :: rat
  clearing_price :: "rat option"

text \<open>
  \<^verbatim>\<open>sort_values(by='price')\<close> is modelled by the stable sort on the price, descending
  order by the stable sort on the negated price.
\<close>

definition uniform_price_mechanism :: "bid list \<Rightarrow> transaction list \<times> up_result" where
  "uniform_price_mechanism bids =
     (case find_clearing_price_and_quantity bids of
        (Some cq, Some cp) \<Rightarrow>
          (let buyers = sort_key (\<lambda>b. - price b) (filter (\<lambda>b. buying b \<and> cp \<le> price b) bids);
               sellers = sort_key price (filter (\<lambda>b. \<not> buying b \<and> price b \<le> cp) bids);
               traded_quantity = min (sum_list (map quantity buyers)) (sum_list (map quantity sellers));
               trs1 = execute_trades cp traded_quantity sellers [];
               trs2 = execute_trades cp traded_quantity buyers trs1
           in (trs2, \<lparr>clearing_quantity = py_round4 traded_quantity,
                        clearing_price = Some (py_round4 cp)\<rparr>))
      | _ \<Rightarrow> ([], \<lparr>clearing_quantity = 0, clearing_price = None\<rparr>))"

text \<open>
  The clearing as the specification words it: the candidate prices are scanned in
  ascending order, and the lowest candidate that attains the maximal traded quantity is
  chosen; when no candidate trades a positive quantity the clearing is empty (quantity
  \<open>0\<close>, no price).
\<close>

definition spec_clearing :: "bid list \<Rightarrow> rat \<times> rat option" where
  "spec_clearing bids =
     (let buyers = filter buying bids;
          sellers = filter (\<lambda>b. \<not> buying b) bids;
          cands = candidate_prices buyers sellers;
          traded = traded_qty buyers sellers
      in if \<exists>p \<in> set cands. 0 < traded p
         then let m = Max (traded ` set cands)
              in (m, Some (Min {p \<in> set cands. traded p = m}))
         else (0, None))"

text \<open>The worked example of the specification, and a table where two candidates tie.\<close>

definition spec_example :: "bid list" where
  "spec_example =
     [\<lparr>idx = 1, buying = True, quantity = 10, price = 0.30\<rparr>,
      \<lparr>idx = 2, buying = True, quantity = 5, price = 0.20\<rparr>,
      \<lparr>idx = 3, buying = False, quantity = 8, price = 0.10\<rparr>,
      \<lparr>idx = 4, buying = False, quantity = 10, price = 0.25\<rparr>]"

definition tie_example :: "bid list" where
  "tie_example =
     [\<lparr>idx = 1, buying = True, quantity = 5, price = 0.30\<rparr>,
      \<lparr>idx = 2, buying = False, quantity = 5, price = 0.10\<rparr>]"

section \<open>The two-step drivers\<close>

text \<open>
  Every residual mechanism has a driver \<^verbatim>\<open>two_steps_X_mechanism\<close> with the same text: run
  the uniform-price mechanism, copy its transactions into a fresh transaction manager,
  subtract them from a copy of the bids, and call the residual mechanism on the bids
  that keep a positive quantity when both sides still have a positive total.

  \<^verbatim>\<open>bidsUP.loc[bid_index, 'quantity'] -= quantity\<close> changes the rows labelled
  \<^verbatim>\<open>bid_index\<close> and nothing when the label is absent.
\<close>

datatype error = TypeError | ZeroDivisionError

definition sub_quantity :: "bid list \<Rightarrow> nat \<Rightarrow> rat \<Rightarrow> bid list" where
  "sub_quantity bids i q =
     map (\<lambda>b. if idx b = i then b\<lparr>quantity := quantity b - q\<rparr> else b) bids"

definition update_remaining :: "bid list \<Rightarrow> transaction list \<Rightarrow> bid list" where
  "update_remaining bidsUP trans_UP =
     fold (\<lambda>row b. sub_quantity b (tx_bid row) (tx_quantity row)) trans_UP bidsUP"

definition merge_transactions :: "transaction list \<Rightarrow> transaction list \<Rightarrow> transaction list" where
  "merge_transactions trs trans_UP =
     fold (\<lambda>row t. add_transaction t (tx_bid row) (tx_quantity row) (tx_price row)
                      (tx_source row) (tx_active row)) trans_UP trs"

definition remaining_bids :: "bid list \<Rightarrow> bid list" where
  "remaining_bids bids = update_remaining bids (fst (uniform_price_mechanism bids))"

definition unsold_quantity :: "bid list \<Rightarrow> rat" where
  "unsold_quantity bids = sum_list (map quantity (filter (\<lambda>b. \<not> buying b) (remaining_bids bids)))"

definition demanded_quantity :: "bid list \<Rightarrow> rat" where
  "demanded_quantity bids = sum_list (map quantity (filter buying (remaining_bids bids)))"

definition bids_uncovered :: "bid list \<Rightarrow> bid list" where
  "bids_uncovered bids = filter (\<lambda>b. 0 < quantity b) (remaining_bids bids)"

text \<open>
  The \<^verbatim>\<open>extra\<close> dictionary of a driver. \<open>mechanism_quantity\<close> and \<open>mechanism_price\<close> are
  the entries named after the mechanism (\<^verbatim>\<open>'CFRM quantity'\<close>, \<^verbatim>\<open>'CFRM price'\<close>,
  \<^verbatim>\<open>'last price'\<close>, ...); a price \<open>None\<close> is Python's \<^verbatim>\<open>None\<close>.
\<close>

record round_summary =
  UP_quantity :: rat
  UP_price :: "rat option"
  mechanism_quantity :: rat
  mechanism_price :: "rat option"
  total_quantity :: rat

text \<open>
  The result of a call that may raise or, for the mechanisms with a \<^verbatim>\<open>while True\<close> loop,
  not return: \<open>None\<close> is a call with no result, \<open>Some (Inl e)\<close> a raised exception.

  The second step takes the uncovered bids, the transaction manager and the clearing
  price of the first step, and gives the transaction manager, the quantity entry and the
  price entry. The driver replaces a price \<^verbatim>\<open>None\<close> by the clearing price.
\<close>

type_synonym 'a result = "(error + 'a) option"

definition two_steps ::
  "(bid list \<Rightarrow> transaction list \<Rightarrow> rat option \<Rightarrow> (transaction list \<times> rat \<times> rat option) result)
     \<Rightarrow> bid list \<Rightarrow> (transaction list \<times> round_summary) result" where
  "two_steps step2 bids =
     (let (trans_UP, result_UP) = uniform_price_mechanism bids;
          UPprice = clearing_price result_UP;
          UPq = clearing_quantity result_UP;
          trs = merge_transactions [] trans_UP
      in if 0 < unsold_quantity bids \<and> 0 < demanded_quantity bids
         then (case step2 (bids_uncovered bids) trs UPprice of
                 None \<Rightarrow> None
               | Some (Inl e) \<Rightarrow> Some (Inl e)
               | Some (Inr (trs', Mq, Mprice)) \<Rightarrow>
                   Some (Inr (trs',
                     \<lparr>UP_quantity = UPq, UP_price = UPprice, mechanism_quantity = Mq,
                      mechanism_price = (case Mprice of None \<Rightarrow> UPprice | Some x \<Rightarrow> Some x),
                      total_quantity = UPq + Mq\<rparr>)))
         else Some (Inr (trs,
                \<lparr>UP_quantity = UPq, UP_price = UPprice, mechanism_quantity = 0,
                 mechanism_price = UPprice, total_quantity = UPq + 0\<rparr>)))"

section \<open>The common allocation of the residual mechanisms\<close>

text \<open>
  APM, CFRM, WAM, MMP, MPAS and IPA sort the two sides, take the side with the larger
  total as the long side, and run the same two loops; they differ in the price they
  record. The loops read the rows of the sorted copies and subtract from
  \<^verbatim>\<open>bids_uncovered\<close>.
\<close>

definition buying_bids_of :: "bid list \<Rightarrow> bid list" where
  "buying_bids_of bu = sort_key (\<lambda>b. - price b) (filter buying bu)"

definition selling_bids_of :: "bid list \<Rightarrow> bid list" where
  "selling_bids_of bu = sort_key price (filter (\<lambda>b. \<not> buying b) bu)"

text \<open>The pair \<^verbatim>\<open>(long_side, short_side)\<close>.\<close>

definition long_short :: "bid list \<Rightarrow> bid list \<times> bid list" where
  "long_short bu =
     (let buying_bids = buying_bids_of bu;
          selling_bids = selling_bids_of bu;
          buying_quantity = sum_list (map quantity buying_bids);
          selling_quantity = sum_list (map quantity selling_bids)
      in if selling_quantity < buying_quantity then (buying_bids, selling_bids)
         else (selling_bids, buying_bids))"

fun short_side_loop ::
  "(bid \<Rightarrow> rat) \<Rightarrow> bid list \<Rightarrow> bid list \<times> transaction list \<times> rat
     \<Rightarrow> bid list \<times> transaction list \<times> rat" where
  "short_side_loop pricef [] (bu, trs, traded_quantity) = (bu, trs, traded_quantity)"
| "short_side_loop pricef (x # xs) (bu, trs, traded_quantity) =
     (if traded_quantity \<le> 0 then (bu, trs, traded_quantity)
      else let trade_qty = min (quantity x) traded_quantity
           in short_side_loop pricef xs
                (sub_quantity bu (idx x) trade_qty,
                 add_transaction trs (idx x) trade_qty (pricef x) (- 1) False,
                 traded_quantity - trade_qty))"

text \<open>
  The second loop tests \<^verbatim>\<open>traded_quantity\<close>, which the first loop has counted down, and
  accumulates \<^verbatim>\<open>quantity_added\<close>.
\<close>

fun long_side_loop ::
  "(bid \<Rightarrow> rat) \<Rightarrow> rat \<Rightarrow> bid list \<Rightarrow> bid list \<times> transaction list \<times> rat
     \<Rightarrow> bid list \<times> transaction list \<times> rat" where
  "long_side_loop pricef traded_quantity [] (bu, trs, quantity_added) = (bu, trs, quantity_added)"
| "long_side_loop pricef traded_quantity (x # xs) (bu, trs, quantity_added) =
     (if traded_quantity \<le> 0 then (bu, trs, quantity_added)
      else let x_quantity = min (quantity x) (traded_quantity - quantity_added)
           in long_side_loop pricef traded_quantity xs
                (sub_quantity bu (idx x) x_quantity,
                 add_transaction trs (idx x) x_quantity (pricef x) (- 1) False,
                 quantity_added + x_quantity))"

definition allocate_sides ::
  "(bid \<Rightarrow> rat) \<Rightarrow> (bid \<Rightarrow> rat) \<Rightarrow> bid list \<Rightarrow> transaction list
     \<Rightarrow> bid list \<times> transaction list" where
  "allocate_sides short_price long_price bu trs =
     (let (long_side, short_side) = long_short bu;
          traded_quantity = sum_list (map quantity short_side);
          (bu1, trs1, traded_quantity1) =
             short_side_loop short_price short_side (bu, trs, traded_quantity);
          (bu2, trs2, quantity_added) =
             long_side_loop long_price traded_quantity1 long_side (bu1, trs1, 0)
      in (bu2, trs2))"

text \<open>
  Column statistics. pandas gives NaN for the mean, the maximum and the minimum of an
  empty column; \<open>None\<close> stands for it. Where a mechanism computes its price from such a
  statistic and a side is empty, neither loop records a transaction (the short side is
  empty or its total is not positive), so the mechanism returns the bids and the
  transaction manager as they are, with the price NaN.
\<close>

definition series_mean :: "rat list \<Rightarrow> rat option" where
  "series_mean xs = (if xs = [] then None else Some (sum_list xs / of_nat (length xs)))"

definition series_max :: "rat list \<Rightarrow> rat option" where
  "series_max xs = (case xs of [] \<Rightarrow> None | x # ys \<Rightarrow> Some (fold max ys x))"

definition series_min :: "rat list \<Rightarrow> rat option" where
  "series_min xs = (case xs of [] \<Rightarrow> None | x # ys \<Rightarrow> Some (fold min ys x))"

subsection \<open>Cap and floor range midpoint (\<^verbatim>\<open>pricing_CFRM.py\<close>)\<close>

definition cap_and_floor_range_midpoint ::
  "bid list \<Rightarrow> transaction list \<Rightarrow> (bid list \<times> rat option) \<times> transaction list" where
  "cap_and_floor_range_midpoint bu trs =
     (case (series_mean (map price (buying_bids_of bu)),
            series_mean (map price (selling_bids_of bu))) of
        (Some mean_buy, Some mean_sell) \<Rightarrow>
          (let midpoint_price = (mean_buy + mean_sell) / 2;
               (bu', trs') = allocate_sides (\<lambda>x. midpoint_price) (\<lambda>x. midpoint_price) bu trs
           in ((bu', Some midpoint_price), trs'))
      | _ \<Rightarrow> ((bu, None), trs))"

text \<open>
  The driver pops \<^verbatim>\<open>FIT\<close> and \<^verbatim>\<open>TOU\<close> from its keyword arguments and does not use
  them. A NaN price is not reached: the guard of \<open>two_steps\<close> makes both sides non-empty.
\<close>

definition two_steps_CFRM_mechanism ::
  "rat \<Rightarrow> rat \<Rightarrow> bid list \<Rightarrow> (transaction list \<times> round_summary) result" where
  "two_steps_CFRM_mechanism FIT TOU bids =
     two_steps (\<lambda>bu trs UPprice.
        case cap_and_floor_range_midpoint bu trs of
          ((bidsM, Some CFRMprice), trs') \<Rightarrow>
             Some (Inr (trs', sum_list (map quantity bidsM), Some CFRMprice))
        | ((bidsM, None), trs') \<Rightarrow> None) bids"

subsection \<open>Average price method (\<^verbatim>\<open>pricing_APM.py\<close>)\<close>

text \<open>
  The short-side loop prices a row against \<^verbatim>\<open>long_side.iloc[0]\<close>, the long-side loop
  against \<^verbatim>\<open>short_side.iloc[0]\<close>. When a side is empty neither loop reaches its body.
\<close>

definition average_price_method :: "bid list \<Rightarrow> transaction list \<Rightarrow> bid list \<times> transaction list" where
  "average_price_method bu trs =
     (case long_short bu of
        (l # ls, s # ss) \<Rightarrow>
          allocate_sides (\<lambda>x. (price x + price l) / 2) (\<lambda>x. (price x + price s) / 2) bu trs
      | _ \<Rightarrow> (bu, trs))"

definition two_steps_APM_mechanism ::
  "rat \<Rightarrow> rat \<Rightarrow> bid list \<Rightarrow> (transaction list \<times> round_summary) result" where
  "two_steps_APM_mechanism FIT TOU bids =
     two_steps (\<lambda>bu trs UPprice.
        case average_price_method bu trs of
          (bidsM, trs') \<Rightarrow>
             Some (Inr (trs', sum_list (map quantity bidsM),
                        (case series_mean (map price bidsM) of
                           None \<Rightarrow> UPprice | Some m \<Rightarrow> Some m)))) bids"

subsection \<open>Weighted average method (\<^verbatim>\<open>pricing_WAM.py\<close>)\<close>

definition weighted_average_method ::
  "bid list \<Rightarrow> transaction list \<Rightarrow> (bid list \<times> rat option) \<times> transaction list" where
  "weighted_average_method bu trs =
     (let buying_bids = buying_bids_of bu;
          selling_bids = selling_bids_of bu;
          buying_quantity = sum_list (map quantity buying_bids);
          selling_quantity = sum_list (map quantity selling_bids)
      in if buying_quantity + selling_quantity = 0 then ((bu, None), trs)
         else let weighted_price =
                    (sum_list (map (\<lambda>b. price b * quantity b) buying_bids)
                     + sum_list (map (\<lambda>b. price b * quantity b) selling_bids))
                    / (buying_quantity + selling_quantity);
                  (bu', trs') = allocate_sides (\<lambda>x. weighted_price) (\<lambda>x. weighted_price) bu trs
              in ((bu', Some weighted_price), trs'))"

definition two_steps_WAM_mechanism ::
  "rat \<Rightarrow> rat \<Rightarrow> bid list \<Rightarrow> (transaction list \<times> round_summary) result" where
  "two_steps_WAM_mechanism FIT TOU bids =
     two_steps (\<lambda>bu trs UPprice.
        case weighted_average_method bu trs of
          ((bidsM, Some WAMprice), trs') \<Rightarrow>
             Some (Inr (trs', sum_list (map quantity bidsM), Some WAMprice))
        | ((bidsM, None), trs') \<Rightarrow> None) bids"

subsection \<open>Modified marginal price (\<^verbatim>\<open>pricing_MMP.py\<close>)\<close>

definition modified_marginal_price ::
  "bid list \<Rightarrow> transaction list \<Rightarrow> (bid list \<times> rat option) \<times> transaction list" where
  "modified_marginal_price bu trs =
     (case (series_max (map price (buying_bids_of bu)),
            series_min (map price (selling_bids_of bu))) of
        (Some buy_max, Some sell_min) \<Rightarrow>
          (let marginal_price = (buy_max + sell_min) / 2;
               (bu', trs') = allocate_sides (\<lambda>x. marginal_price) (\<lambda>x. marginal_price) bu trs
           in ((bu', Some marginal_price), trs'))
      | _ \<Rightarrow> ((bu, None), trs))"

definition two_steps_MMP_mechanism ::
  "rat \<Rightarrow> rat \<Rightarrow> bid list \<Rightarrow> (transaction list \<times> round_summary) result" where
  "two_steps_MMP_mechanism FIT TOU bids =
     two_steps (\<lambda>bu trs UPprice.
        case modified_marginal_price bu trs of
          ((bidsM, Some MMPprice), trs') \<Rightarrow>
             Some (Inr (trs', sum_list (map quantity bidsM), Some MMPprice))
        | ((bidsM, None), trs') \<Rightarrow> None) bids"

subsection \<open>Marginal price adjusted by spread (\<^verbatim>\<open>pricing_MPAS.py\<close>)\<close>

definition marginal_price_adjusted_by_spread ::
  "bid list \<Rightarrow> transaction list \<Rightarrow> rat \<Rightarrow> bid list \<times> transaction list" where
  "marginal_price_adjusted_by_spread bu trs alpha =
     (case (series_max (map price (filter buying bu)),
            series_min (map price (filter (\<lambda>b. \<not> buying b) bu))) of
        (Some buy_price_max, Some sell_price_min) \<Rightarrow>
          (let spread = buy_price_max - sell_price_min;
               adjusted_price = (buy_price_max + sell_price_min) / 2 + alpha * spread
           in allocate_sides (\<lambda>x. adjusted_price) (\<lambda>x. adjusted_price) bu trs)
      | _ \<Rightarrow> (bu, trs))"

definition two_steps_MPAS_mechanism ::
  "rat \<Rightarrow> rat \<Rightarrow> rat \<Rightarrow> bid list \<Rightarrow> (transaction list \<times> round_summary) result" where
  "two_steps_MPAS_mechanism FIT TOU alpha bids =
     two_steps (\<lambda>bu trs UPprice.
        case marginal_price_adjusted_by_spread bu trs alpha of
          (bidsM, trs') \<Rightarrow>
             Some (Inr (trs', sum_list (map quantity bidsM),
                        (case series_mean (map price bidsM) of
                           None \<Rightarrow> UPprice | Some m \<Rightarrow> Some m)))) bids"

subsection \<open>Iterative price adjustment (\<^verbatim>\<open>pricing_IPA.py\<close>)\<close>

text \<open>
  The \<^verbatim>\<open>while True\<close> loop of \<^verbatim>\<open>iterative_price_adjustment\<close>, which
  \<^verbatim>\<open>nash_bargaining_solution\<close> repeats with \<^verbatim>\<open>floor\<close> and \<^verbatim>\<open>cap\<close> in the place of
  \<^verbatim>\<open>FIT\<close> and \<^verbatim>\<open>TOU\<close>. The loop may run forever, so it is a partial function: \<open>None\<close> is
  a loop that does not end. \<open>prange\<close> is the pair of the largest and the smallest price of
  the uncovered bids; on an empty table both are NaN, and \<^verbatim>\<open>max(FIT, min(nan, TOU))\<close> is
  \<^verbatim>\<open>FIT\<close>.
\<close>

definition price_range :: "bid list \<Rightarrow> (rat \<times> rat) option" where
  "price_range bu =
     (case (series_max (map price bu), series_min (map price bu)) of
        (Some pmax, Some pmin) \<Rightarrow> Some (pmax, pmin)
      | _ \<Rightarrow> None)"

definition clipped_update :: "rat \<Rightarrow> rat \<Rightarrow> rat \<Rightarrow> (rat \<times> rat) option \<Rightarrow> rat \<Rightarrow> rat" where
  "clipped_update theta FIT TOU prange adjusted_price =
     (case prange of
        Some (pmax, pmin) \<Rightarrow>
          max FIT (min (adjusted_price
                        + theta * ((pmax - adjusted_price) + (adjusted_price - pmin)) / 2) TOU)
      | None \<Rightarrow> FIT)"

partial_function (option) price_adjustment_loop ::
  "rat \<Rightarrow> rat \<Rightarrow> rat \<Rightarrow> rat \<Rightarrow> (rat \<times> rat) option \<Rightarrow> rat \<Rightarrow> rat option" where
  "price_adjustment_loop theta epsilon FIT TOU prange adjusted_price =
     (let new_price = clipped_update theta FIT TOU prange adjusted_price
      in if \<bar>new_price - adjusted_price\<bar> < epsilon then Some adjusted_price
         else price_adjustment_loop theta epsilon FIT TOU prange new_price)"

declare price_adjustment_loop.simps [code]

definition iterative_price_adjustment ::
  "bid list \<Rightarrow> transaction list \<Rightarrow> rat \<Rightarrow> rat \<Rightarrow> rat \<Rightarrow> rat \<Rightarrow> rat
     \<Rightarrow> ((bid list \<times> rat) \<times> transaction list) option" where
  "iterative_price_adjustment bu trs theta epsilon MP FIT TOU =
     (case price_adjustment_loop theta epsilon FIT TOU (price_range bu) MP of
        None \<Rightarrow> None
      | Some adjusted_price \<Rightarrow>
          (let (bu', trs') = allocate_sides (\<lambda>x. adjusted_price) (\<lambda>x. adjusted_price) bu trs
           in Some ((bu', adjusted_price), trs')))"

text \<open>
  The driver passes the clearing price of the first step as \<^verbatim>\<open>MP\<close>. When the first step
  cleared nothing that price is \<^verbatim>\<open>None\<close>, and the first subtraction of the loop raises
  \<^verbatim>\<open>TypeError\<close>.
\<close>

definition two_steps_IPA_mechanism ::
  "rat \<Rightarrow> rat \<Rightarrow> rat \<Rightarrow> rat \<Rightarrow> bid list \<Rightarrow> (transaction list \<times> round_summary) result" where
  "two_steps_IPA_mechanism FIT TOU theta epsilon bids =
     two_steps (\<lambda>bu trs UPprice.
        case UPprice of
          None \<Rightarrow> Some (Inl TypeError)
        | Some MP \<Rightarrow>
            (case iterative_price_adjustment bu trs theta epsilon MP FIT TOU of
               None \<Rightarrow> None
             | Some ((bidsM, IPAprice), trs') \<Rightarrow>
                 Some (Inr (trs', sum_list (map quantity bidsM), Some IPAprice)))) bids"

section \<open>Pairwise matching (\<^verbatim>\<open>pricing_NBS.py\<close>, \<^verbatim>\<open>pricing_CGTS.py\<close>)\<close>

text \<open>
  NBS, VCG, CGT and CGTS match every uncovered buyer with the sellers in table order. The
  outer loop iterates over the rows of \<^verbatim>\<open>bids_uncovered\<close> as they were when the loop
  started; \<^verbatim>\<open>row['quantity']\<close> is the quantity of that copy of the row. The sellers are
  read from the table again for every buyer. \<^verbatim>\<open>bids_uncovered.at[i, 'quantity']\<close> reads
  the table as it is now. \<open>pricef i j\<close> is the price recorded for buyer \<open>i\<close> and seller
  \<open>j\<close>.
\<close>

definition quantity_at :: "bid list \<Rightarrow> nat \<Rightarrow> rat option" where
  "quantity_at bu i = map_option quantity (find (\<lambda>b. idx b = i) bu)"

fun match_sellers ::
  "(nat \<Rightarrow> rat) \<Rightarrow> nat \<Rightarrow> rat \<Rightarrow> bid list \<Rightarrow> bid list \<times> transaction list
     \<Rightarrow> bid list \<times> transaction list" where
  "match_sellers pricef i row_quantity [] (bu, trs) = (bu, trs)"
| "match_sellers pricef i row_quantity (seller # sellers) (bu, trs) =
     (let q = min row_quantity (quantity seller);
          trs1 = add_transaction trs i q (pricef (idx seller)) (- 1) False;
          trs2 = add_transaction trs1 (idx seller) q (pricef (idx seller)) (- 1) False;
          bu1 = sub_quantity bu i q;
          bu2 = sub_quantity bu1 (idx seller) q
      in if quantity_at bu2 i = Some 0 then (bu2, trs2)
         else match_sellers pricef i row_quantity sellers (bu2, trs2))"

fun match_buyers ::
  "(nat \<Rightarrow> nat \<Rightarrow> rat) \<Rightarrow> bid list \<Rightarrow> bid list \<times> transaction list
     \<Rightarrow> bid list \<times> transaction list" where
  "match_buyers pricef [] (bu, trs) = (bu, trs)"
| "match_buyers pricef (row # rows) (bu, trs) =
     (if buying row
      then match_buyers pricef rows
             (match_sellers (pricef (idx row)) (idx row) (quantity row)
                (filter (\<lambda>b. \<not> buying b) bu) (bu, trs))
      else match_buyers pricef rows (bu, trs))"

definition pairwise_matching ::
  "(nat \<Rightarrow> nat \<Rightarrow> rat) \<Rightarrow> bid list \<Rightarrow> transaction list \<Rightarrow> bid list \<times> transaction list" where
  "pairwise_matching pricef bu trs = match_buyers pricef bu (bu, trs)"

subsection \<open>Nash bargaining solution (\<^verbatim>\<open>pricing_NBS.py\<close>)\<close>

definition nash_bargaining_solution ::
  "bid list \<Rightarrow> transaction list \<Rightarrow> rat \<Rightarrow> rat \<Rightarrow> rat \<Rightarrow> rat \<Rightarrow> rat
     \<Rightarrow> ((bid list \<times> rat) \<times> transaction list) option" where
  "nash_bargaining_solution bu trs cap floor_p theta epsilon MP =
     (case price_adjustment_loop theta epsilon floor_p cap (price_range bu) MP of
        None \<Rightarrow> None
      | Some adjusted_price \<Rightarrow>
          (let (bu', trs') = pairwise_matching (\<lambda>i j. adjusted_price) bu trs
           in Some ((bu', adjusted_price), trs')))"

definition two_steps_NBS_mechanism ::
  "rat \<Rightarrow> rat \<Rightarrow> rat \<Rightarrow> rat \<Rightarrow> rat \<Rightarrow> rat \<Rightarrow> bid list
     \<Rightarrow> (transaction list \<times> round_summary) result" where
  "two_steps_NBS_mechanism FIT TOU cap floor_p theta epsilon bids =
     two_steps (\<lambda>bu trs UPprice.
        case UPprice of
          None \<Rightarrow> Some (Inl TypeError)
        | Some MP \<Rightarrow>
            (case nash_bargaining_solution bu trs cap floor_p theta epsilon MP of
               None \<Rightarrow> None
             | Some ((bidsM, NBSprice), trs') \<Rightarrow>
                 Some (Inr (trs', sum_list (map quantity bidsM), Some NBSprice)))) bids"

section \<open>Newton-Raphson price discovery (\<^verbatim>\<open>pricing_UPNR.py\<close>)\<close>

text \<open>
  \<^verbatim>\<open>newton_raphson_adjustment\<close> is modelled for tables with a bid on each side (so that
  the two mean prices are numbers) and for finite floats: the result is \<open>None\<close> when a side
  is empty or when the Newton step divides by zero.
\<close>

definition mean_price :: "bid list \<Rightarrow> rat" where
  "mean_price rows = sum_list (map price rows) / of_nat (length rows)"

definition nr_price :: "rat \<Rightarrow> bid list \<Rightarrow> bid list \<Rightarrow> rat" where
  "nr_price k buyers sellers =
     (mean_price sellers * (1 - k) + mean_price buyers * (1 + k)) / 2"

definition fprice :: "rat \<Rightarrow> bid list \<Rightarrow> bid list \<Rightarrow> rat \<Rightarrow> rat" where
  "fprice k buyers sellers maxQt =
     (let p = nr_price k buyers sellers;
          demand = sum_list (map quantity (filter (\<lambda>b. p < price b * (1 + k)) buyers));
          supply = sum_list (map quantity (filter (\<lambda>b. price b * (1 - k) < p) sellers));
          Qt = min demand supply
      in maxQt - Qt)"

text \<open>
  \<^verbatim>\<open>numerical_derivative\<close> differentiates at the \<^verbatim>\<open>k = 0.0005\<close> of the enclosing
  function, with \<^verbatim>\<open>h\<close> starting at \<^verbatim>\<open>1e-5\<close> and at most \<open>100\<close> rounds.
\<close>

fun numerical_derivative_loop :: "nat \<Rightarrow> rat \<Rightarrow> (rat \<Rightarrow> rat) \<Rightarrow> rat" where
  "numerical_derivative_loop 0 h f = 0"
| "numerical_derivative_loop (Suc n) h f =
     (let derivative = (f (5 / 10000 + h) - f (5 / 10000)) / h
      in if derivative \<noteq> 0 then derivative else numerical_derivative_loop n (h * 10) f)"

definition numerical_derivative :: "(rat \<Rightarrow> rat) \<Rightarrow> rat" where
  "numerical_derivative f = numerical_derivative_loop 100 (1 / 100000) f"

text \<open>
  The \<^verbatim>\<open>for i in range(max_iterations)\<close> loop of \<^verbatim>\<open>find_equilibrium_newton_raphson\<close>
  on the pair \<^verbatim>\<open>(k, price)\<close>, with \<^verbatim>\<open>tolerance = 0.01\<close> and \<^verbatim>\<open>epsilon = 1e-5\<close>;
  \<^verbatim>\<open>price\<close> is unbound before the first round.
\<close>

fun newton_raphson_loop ::
  "nat \<Rightarrow> rat \<times> rat option \<Rightarrow> bid list \<Rightarrow> bid list \<Rightarrow> rat \<Rightarrow> rat option" where
  "newton_raphson_loop 0 (k, last_price) buyers sellers maxQt = last_price"
| "newton_raphson_loop (Suc n) (k, last_price) buyers sellers maxQt =
     (let f_p = fprice k buyers sellers maxQt;
          f_prime_p = numerical_derivative (\<lambda>k. fprice k buyers sellers maxQt)
      in if \<bar>f_p\<bar> < 1 / 100 then Some (py_round4 (nr_price k buyers sellers))
         else if f_prime_p + 1 / 100000 = 0 then None
         else let k' = k - (1 / 10) * f_p / (f_prime_p + 1 / 100000)
              in newton_raphson_loop n (k', Some (py_round4 (nr_price k' buyers sellers)))
                   buyers sellers maxQt)"

definition find_equilibrium_newton_raphson ::
  "rat \<Rightarrow> bid list \<Rightarrow> bid list \<Rightarrow> rat \<Rightarrow> rat option" where
  "find_equilibrium_newton_raphson k buyers sellers maxQt =
     newton_raphson_loop 100 (k, None) buyers sellers maxQt"

text \<open>The price the mechanism converges to on a table of uncovered bids.\<close>

definition newton_price :: "bid list \<Rightarrow> rat option" where
  "newton_price bu =
     (let buyers = buying_bids_of bu;
          sellers = selling_bids_of bu;
          QS = sum_list (map quantity sellers);
          QB = sum_list (map quantity buyers)
      in if buyers = [] \<or> sellers = [] then None
         else find_equilibrium_newton_raphson (5 / 10000) buyers sellers (min QS QB))"

text \<open>Here the whole short side trades, and the long side trades up to that quantity.\<close>

fun nr_short_loop ::
  "rat \<Rightarrow> bid list \<Rightarrow> bid list \<times> transaction list \<Rightarrow> bid list \<times> transaction list" where
  "nr_short_loop p [] (bu, trs) = (bu, trs)"
| "nr_short_loop p (x # xs) (bu, trs) =
     nr_short_loop p xs
       (sub_quantity bu (idx x) (quantity x),
        add_transaction trs (idx x) (quantity x) p (- 1) False)"

fun nr_long_loop ::
  "rat \<Rightarrow> rat \<Rightarrow> bid list \<Rightarrow> bid list \<times> transaction list \<times> rat
     \<Rightarrow> bid list \<times> transaction list \<times> rat" where
  "nr_long_loop p traded_quantity [] (bu, trs, quantity_added) = (bu, trs, quantity_added)"
| "nr_long_loop p traded_quantity (x # xs) (bu, trs, quantity_added) =
     (if quantity_added = traded_quantity then (bu, trs, quantity_added)
      else let x_quantity = (if quantity x + quantity_added \<le> traded_quantity then quantity x
                             else traded_quantity - quantity_added)
           in nr_long_loop p traded_quantity xs
                (sub_quantity bu (idx x) x_quantity,
                 add_transaction trs (idx x) x_quantity p (- 1) False,
                 quantity_added + x_quantity))"

text \<open>
  The result is the triple of the bids, the price and the traded quantity (the source
  also returns the two sides and their totals, which the driver ignores).
\<close>

definition newton_raphson_adjustment ::
  "bid list \<Rightarrow> transaction list \<Rightarrow> rat \<Rightarrow> rat
     \<Rightarrow> ((bid list \<times> rat \<times> rat) \<times> transaction list) option" where
  "newton_raphson_adjustment bu trs FIT TOU =
     (let buyers = buying_bids_of bu;
          sellers = selling_bids_of bu;
          QS = sum_list (map quantity sellers);
          QB = sum_list (map quantity buyers);
          maxQt = min QS QB
      in case newton_price bu of
           None \<Rightarrow> None
         | Some p \<Rightarrow>
             if TOU < p \<or> p < FIT then Some ((bu, 0, 0), trs)
             else let (long_side, short_side) =
                        (if QS < QB then (buyers, sellers) else (sellers, buyers));
                      traded_quantity = maxQt;
                      (bu1, trs1) = nr_short_loop p short_side (bu, trs);
                      (bu2, trs2, quantity_added) =
                        nr_long_loop p traded_quantity long_side (bu1, trs1, 0)
                  in Some ((bu2, p, traded_quantity), trs2))"

definition two_steps_UPNR_mechanism ::
  "rat \<Rightarrow> rat \<Rightarrow> bid list \<Rightarrow> (transaction list \<times> round_summary) result" where
  "two_steps_UPNR_mechanism FIT TOU bids =
     two_steps (\<lambda>bu trs UPprice.
        case newton_raphson_adjustment bu trs FIT TOU of
          None \<Rightarrow> None
        | Some ((bidsM, Mprice, Mq), trs') \<Rightarrow> Some (Inr (trs', Mq, Some Mprice))) bids"

section \<open>Monte-Carlo Shapley values (\<^verbatim>\<open>pricing_CGTS.py\<close>)\<close>

text \<open>
  \<^verbatim>\<open>calculate_welfare\<close> subtracts the column of the sell prices from the column of the
  buy prices and sums the result. pandas aligns the two columns on their labels: a label
  that stands in one column only gives NaN, which the sum skips. What is summed is
  therefore the difference for every pair of a buy row and a sell row with the same
  label.
\<close>

definition calculate_welfare :: "bid list \<Rightarrow> rat" where
  "calculate_welfare bids =
     sum_list (concat (map (\<lambda>b. map (\<lambda>s. price b - price s)
                                   (filter (\<lambda>s. idx s = idx b) (filter (\<lambda>s. \<not> buying s) bids)))
                           (filter buying bids)))"

text \<open>\<^verbatim>\<open>bids_uncovered.loc[S]\<close>: the rows with the labels of \<open>S\<close>, in the order of \<open>S\<close>.\<close>

definition loc_rows :: "bid list \<Rightarrow> nat list \<Rightarrow> bid list" where
  "loc_rows bids S = concat (map (\<lambda>l. filter (\<lambda>b. idx b = l) bids) S)"

text \<open>
  The dictionary \<^verbatim>\<open>shapley_values\<close> has the labels of the table as its keys, all
  starting at \<open>0\<close>; it is modelled by a function on the labels. The inner loop walks one
  ordering of the participants, on the pair \<^verbatim>\<open>(S, shapley_values)\<close>.
\<close>

fun coalition_loop ::
  "bid list \<Rightarrow> nat \<Rightarrow> nat list \<Rightarrow> nat list \<times> (nat \<Rightarrow> rat) \<Rightarrow> nat list \<times> (nat \<Rightarrow> rat)" where
  "coalition_loop bu num_samples [] (S, shapley_values) = (S, shapley_values)"
| "coalition_loop bu num_samples (p # ps) (S, shapley_values) =
     (let W_S = (if S \<noteq> [] then calculate_welfare (loc_rows bu S) else 0);
          S' = S @ [p];
          W_S_plus_p = calculate_welfare (loc_rows bu S')
      in coalition_loop bu num_samples ps
           (S', shapley_values(p := shapley_values p + (W_S_plus_p - W_S) / of_nat num_samples)))"

text \<open>
  \<^verbatim>\<open>random.shuffle(participants)\<close> reorders the list in place with the generator of the
  \<^verbatim>\<open>random\<close> module, which belongs to the process: the mechanism has no seed or
  generator parameter. The state of that generator is passed explicitly as \<open>g\<close>, and the
  shuffle is a parameter \<open>shuffle\<close> that gives the new order and the new state. The outer
  loop runs \<^verbatim>\<open>num_samples\<close> times on the triple of the participants, the dictionary and
  the generator state.
\<close>

fun sampling_loop ::
  "('g \<Rightarrow> nat list \<Rightarrow> nat list \<times> 'g) \<Rightarrow> bid list \<Rightarrow> nat \<Rightarrow> nat
     \<Rightarrow> nat list \<times> (nat \<Rightarrow> rat) \<times> 'g \<Rightarrow> nat list \<times> (nat \<Rightarrow> rat) \<times> 'g" where
  "sampling_loop shuffle bu num_samples 0 (participants, shapley_values, g) =
     (participants, shapley_values, g)"
| "sampling_loop shuffle bu num_samples (Suc m) (participants, shapley_values, g) =
     (let (participants', g') = shuffle g participants;
          (S, shapley_values') =
             coalition_loop bu num_samples participants' ([], shapley_values)
      in sampling_loop shuffle bu num_samples m (participants', shapley_values', g'))"

text \<open>The Shapley values the mechanism estimates, and the generator state it leaves.\<close>

definition monte_carlo_shapley_values ::
  "('g \<Rightarrow> nat list \<Rightarrow> nat list \<times> 'g) \<Rightarrow> bid list \<Rightarrow> nat \<Rightarrow> 'g \<Rightarrow> (nat \<Rightarrow> rat) \<times> 'g" where
  "monte_carlo_shapley_values shuffle bu num_samples g =
     snd (sampling_loop shuffle bu num_samples num_samples (map idx bu, (\<lambda>p. 0), g))"

text \<open>
  The mean of the Shapley values divides by the number of keys, and raises
  \<^verbatim>\<open>ZeroDivisionError\<close> on an empty table.
\<close>

definition cooperative_game_theory_shapley_monte_carlo ::
  "('g \<Rightarrow> nat list \<Rightarrow> nat list \<times> 'g) \<Rightarrow> bid list \<Rightarrow> transaction list \<Rightarrow> rat \<Rightarrow> rat \<Rightarrow> nat
     \<Rightarrow> 'g \<Rightarrow> (error + (bid list \<times> rat) \<times> transaction list) \<times> 'g" where
  "cooperative_game_theory_shapley_monte_carlo shuffle bu trs cap floor_p num_samples g =
     (let (shapley_values, g') = monte_carlo_shapley_values shuffle bu num_samples g;
          (bu', trs') =
             pairwise_matching
               (\<lambda>i j. max floor_p (min ((shapley_values i + shapley_values j) / 2) cap)) bu trs;
          keys = remdups (map idx bu)
      in if keys = [] then (Inl ZeroDivisionError, g')
         else (Inr ((bu', sum_list (map shapley_values keys) / of_nat (length keys)), trs'), g'))"

text \<open>
  The driver pops \<^verbatim>\<open>FIT\<close>, \<^verbatim>\<open>TOU\<close>, \<^verbatim>\<open>cap\<close>, \<^verbatim>\<open>floor\<close> and \<^verbatim>\<open>num_samples\<close> from its
  keyword arguments; \<open>kwargs\<close> are the keyword arguments that remain, which it does not
  read. It returns the result of the round and leaves the generator in a new state.
\<close>

definition two_steps_CGTS_mechanism ::
  "('g \<Rightarrow> nat list \<Rightarrow> nat list \<times> 'g) \<Rightarrow> rat \<Rightarrow> rat \<Rightarrow> rat \<Rightarrow> rat \<Rightarrow> nat \<Rightarrow> (string \<rightharpoonup> rat)
     \<Rightarrow> bid list \<Rightarrow> 'g \<Rightarrow> (transaction list \<times> round_summary) result \<times> 'g" where
  "two_steps_CGTS_mechanism shuffle FIT TOU cap floor_p num_samples kwargs bids g =
     (two_steps (\<lambda>bu trs UPprice.
        case fst (cooperative_game_theory_shapley_monte_carlo shuffle bu trs cap floor_p
                    num_samples g) of
          Inl e \<Rightarrow> Some (Inl e)
        | Inr ((bidsM, CGTprice), trs') \<Rightarrow>
            Some (Inr (trs', sum_list (map quantity bidsM), Some CGTprice))) bids,
      if 0 < unsold_quantity bids \<and> 0 < demanded_quantity bids
      then snd (monte_carlo_shapley_values shuffle (bids_uncovered bids) num_samples g)
      else g)"

text \<open>A shuffle for the examples: the state counts the calls, and the list is rotated.\<close>

definition rotate_shuffle :: "nat \<Rightarrow> nat list \<Rightarrow> nat list \<times> nat" where
  "rotate_shuffle g xs = (rotate (Suc g) xs, Suc g)"

section \<open>Example rounds\<close>

text \<open>
  Rounds in which the first step clears nothing and both sides stay uncovered: a buyer
  of \<open>4\<close> below a seller of \<open>6\<close>.
\<close>

definition short_long_example :: "bid list" where
  "short_long_example =
     [\<lparr>idx = 1, buying = True, quantity = 4, price = 0.18\<rparr>,
      \<lparr>idx = 2, buying = False, quantity = 6, price = 0.22\<rparr>]"

definition low_price_example :: "bid list" where
  "low_price_example =
     [\<lparr>idx = 1, buying = True, quantity = 4, price = 0.02\<rparr>,
      \<lparr>idx = 2, buying = False, quantity = 6, price = 0.04\<rparr>]"

definition spread_example :: "bid list" where
  "spread_example =
     [\<lparr>idx = 1, buying = True, quantity = 4, price = 0.12\<rparr>,
      \<lparr>idx = 2, buying = False, quantity = 6, price = 0.20\<rparr>]"

definition newton_example :: "bid list" where
  "newton_example =
     [\<lparr>idx = 1, buying = True, quantity = 4, price = 0.30\<rparr>,
      \<lparr>idx = 2, buying = False, quantity = 4, price = 0.40\<rparr>]"

text \<open>
  A round in which the first step matches buyer 1 with seller 2 at \<open>0.10\<close> and leaves
  buyer 3 (quantity \<open>10\<close>) and the sellers 4 and 5 (quantities \<open>4\<close> and \<open>8\<close>) uncovered.
\<close>

definition over_allocation_example :: "bid list" where
  "over_allocation_example =
     [\<lparr>idx = 1, buying = True, quantity = 5, price = 0.30\<rparr>,
      \<lparr>idx = 2, buying = False, quantity = 5, price = 0.10\<rparr>,
      \<lparr>idx = 3, buying = True, quantity = 10, price = 0.05\<rparr>,
      \<lparr>idx = 4, buying = False, quantity = 4, price = 0.50\<rparr>,
      \<lparr>idx = 5, buying = False, quantity = 8, price = 0.60\<rparr>]"


section \<open>Properties of the uniform-price clearing\<close>

text \<open>The floor of a fraction of numerals, for the evaluation of \<open>py_round4\<close>.\<close>

lemma floor_rat_numeral_div:
  "\<lfloor>(numeral a :: rat) / numeral b\<rfloor> = numeral a div numeral b"
  using floor_divide_of_int_eq [of "numeral a" "numeral b", where ?'a = rat] by simp

lemma floor_rat_neg_numeral_div:
  "\<lfloor>- ((numeral a :: rat) / numeral b)\<rfloor> = - numeral a div numeral b"
  using floor_divide_of_int_eq [of "- numeral a" "numeral b", where ?'a = rat] by simp

lemma fold_max_ge: "(a::rat) \<le> fold max xs a"
proof (induction xs arbitrary: a)
  case Nil
  show ?case by simp
next
  case (Cons x xs)
  have "a \<le> max x a" by simp
  also have "\<dots> \<le> fold max xs (max x a)" by (rule Cons.IH)
  finally show ?case by simp
qed

lemma fold_max_Max: "fold max xs (a::rat) = Max (insert a (set xs))"
  using Max.set_eq_fold [of a xs] by simp

lemma scan_candidates_fold:
  "scan_candidates B S ps (bp, bq) =
     (if bq < fold max (map (traded_qty B S) ps) bq
      then find (\<lambda>p. traded_qty B S p = fold max (map (traded_qty B S) ps) bq) ps
      else bp,
      fold max (map (traded_qty B S) ps) bq)"
proof (induction ps arbitrary: bp bq)
  case Nil
  show ?case by simp
next
  case (Cons p ps)
  let ?t = "traded_qty B S"
  show ?case
  proof (cases "bq < ?t p")
    case True
    then have m: "max (?t p) bq = ?t p" by simp
    have ge: "?t p \<le> fold max (map ?t ps) (?t p)" by (rule fold_max_ge)
    with True have gt: "bq < fold max (map ?t ps) (?t p)" by simp
    show ?thesis
      using True ge gt by (auto simp: Cons.IH m Let_def)
  next
    case False
    then have m: "max (?t p) bq = bq" by simp
    show ?thesis
      using False by (auto simp: Cons.IH m Let_def)
  qed
qed

lemma find_sorted_Min:
  assumes "sorted (ps::rat list)" and "find P ps = Some p"
  shows "p = Min {q \<in> set ps. P q}"
proof -
  from assms(2) obtain i where i: "i < length ps" "P (ps ! i)" "p = ps ! i"
    "\<forall>j<i. \<not> P (ps ! j)"
    by (auto simp: find_Some_iff)
  have "Min {q \<in> set ps. P q} = p"
  proof (rule Min_eqI)
    show "finite {q \<in> set ps. P q}" by simp
    show "p \<in> {q \<in> set ps. P q}" using i by simp
    fix y assume "y \<in> {q \<in> set ps. P q}"
    then obtain k where k: "k < length ps" "y = ps ! k" "P y"
      by (auto simp: in_set_conv_nth)
    with i(4) have "\<not> k < i" by auto
    then have "i \<le> k" by simp
    with assms(1) k(1) have "ps ! i \<le> ps ! k" by (simp add: sorted_nth_mono)
    with i k show "p \<le> y" by simp
  qed
  then show ?thesis by simp
qed

lemma sorted_candidate_prices: "sorted (candidate_prices B S)"
  by (simp add: candidate_prices_def)

lemma find_clearing_spec:
  assumes "filter buying bids \<noteq> []" and "filter (\<lambda>b. \<not> buying b) bids \<noteq> []"
  shows "find_clearing_price_and_quantity bids =
           (case spec_clearing bids of (q, Some p) \<Rightarrow> (Some q, Some p) | (q, None) \<Rightarrow> (None, None))"
proof -
  let ?B = "filter buying bids" and ?S = "filter (\<lambda>b. \<not> buying b) bids"
  let ?c = "candidate_prices ?B ?S"
  let ?t = "traded_qty ?B ?S"
  let ?M = "fold max (map ?t ?c) 0"
  have M: "?M = Max (insert 0 (?t ` set ?c))" by (simp add: fold_max_Max)
  show ?thesis
  proof (cases "\<exists>p \<in> set ?c. 0 < ?t p")
    case True
    then obtain p where p: "p \<in> set ?c" "0 < ?t p" by blast
    have ne: "?t ` set ?c \<noteq> {}" using p by auto
    have "?t p \<le> Max (?t ` set ?c)" using p by simp
    with p(2) have pos: "0 < Max (?t ` set ?c)" by (rule less_le_trans)
    have M': "?M = Max (?t ` set ?c)"
      unfolding M using ne pos by (subst Max_insert) (auto simp: max_def)
    have "Max (?t ` set ?c) \<in> ?t ` set ?c" using ne by (intro Max_in) auto
    then obtain q where q: "q \<in> set ?c" "?t q = Max (?t ` set ?c)" by auto
    then obtain r where r: "find (\<lambda>p. ?t p = Max (?t ` set ?c)) ?c = Some r"
      by (cases "find (\<lambda>p. ?t p = Max (?t ` set ?c)) ?c") (auto simp: find_None_iff)
    have rmin: "r = Min {p \<in> set ?c. ?t p = Max (?t ` set ?c)}"
      using find_sorted_Min [OF sorted_candidate_prices r] .
    have sc: "spec_clearing bids = (Max (?t ` set ?c), Some r)"
      using True rmin by (simp add: spec_clearing_def Let_def)
    have "find_clearing_price_and_quantity bids = (Some (Max (?t ` set ?c)), Some r)"
      using assms pos r
      by (simp add: find_clearing_price_and_quantity_def Let_def scan_candidates_fold M')
    then show ?thesis by (simp add: sc)
  next
    case False
    then have le: "\<forall>x \<in> ?t ` set ?c. x \<le> 0" by (auto simp: not_less)
    have "?M = 0"
      unfolding M using le by (intro Max_eqI) auto
    then have "find_clearing_price_and_quantity bids = (None, None)"
      using assms
      by (simp add: find_clearing_price_and_quantity_def Let_def scan_candidates_fold)
    moreover have "spec_clearing bids = (0, None)"
      using False by (simp add: spec_clearing_def Let_def)
    ultimately show ?thesis by simp
  qed
qed

lemma execute_trades_append:
  "execute_trades p t rows trs = trs @ execute_trades p t rows []"
proof (induction rows arbitrary: t trs)
  case Nil
  show ?case by simp
next
  case (Cons r rows)
  let ?q = "min (quantity r) t"
  have a: "execute_trades p t rows trs = trs @ execute_trades p t rows []"
    by (rule Cons.IH)
  have b: "execute_trades p (t - ?q) rows (add_transaction trs (idx r) ?q p (- 1) False)
      = add_transaction trs (idx r) ?q p (- 1) False @ execute_trades p (t - ?q) rows []"
    by (rule Cons.IH)
  have c: "execute_trades p (t - ?q) rows (add_transaction [] (idx r) ?q p (- 1) False)
      = add_transaction [] (idx r) ?q p (- 1) False @ execute_trades p (t - ?q) rows []"
    by (rule Cons.IH)
  show ?case
    unfolding execute_trades.simps Let_def b c using a by (simp add: add_transaction_def)
qed




lemma sum_list_sort_key:
  fixes f :: "'a \<Rightarrow> rat"
  shows "sum_list (map f (sort_key k xs)) = sum_list (map f xs)"
proof -
  have "sum_mset (mset (map f (sort_key k xs))) = sum_mset (mset (map f xs))" by simp
  then show ?thesis by (simp only: sum_mset_sum_list)
qed

lemma scan_candidates_traded:
  assumes "scan_candidates B S ps (None, 0) = (Some p, q)"
  shows "q = traded_qty B S p \<and> 0 < q"
proof -
  let ?M = "fold max (map (traded_qty B S) ps) 0"
  from assms show ?thesis
    by (auto simp: scan_candidates_fold find_Some_iff split: if_splits)
qed

lemma find_clearing_Some:
  assumes "find_clearing_price_and_quantity bids = (Some q, Some p)"
  shows "q = traded_qty (filter buying bids) (filter (\<lambda>b. \<not> buying b) bids) p \<and> 0 < q"
proof -
  let ?B = "filter buying bids" and ?S = "filter (\<lambda>b. \<not> buying b) bids"
  obtain bp bq where s: "scan_candidates ?B ?S (candidate_prices ?B ?S) (None, 0) = (bp, bq)"
    by (cases "scan_candidates ?B ?S (candidate_prices ?B ?S) (None, 0)")
  with assms have "bp = Some p" "bq = q"
    by (auto simp: find_clearing_price_and_quantity_def Let_def split: if_splits)
  with s show ?thesis using scan_candidates_traded by blast
qed

lemma traded_quantity_recomputed:
  "min (sum_list (map quantity (sort_key (\<lambda>b. - price b) (filter (\<lambda>b. buying b \<and> cp \<le> price b) bids))))
       (sum_list (map quantity (sort_key price (filter (\<lambda>b. \<not> buying b \<and> price b \<le> cp) bids))))
   = traded_qty (filter buying bids) (filter (\<lambda>b. \<not> buying b) bids) cp"
proof -
  have "filter (\<lambda>b. buying b \<and> cp \<le> price b) bids = filter (\<lambda>b. cp \<le> price b) (filter buying bids)"
    by (simp add: conj_commute)
  moreover have "filter (\<lambda>b. \<not> buying b \<and> price b \<le> cp) bids
      = filter (\<lambda>b. price b \<le> cp) (filter (\<lambda>b. \<not> buying b) bids)"
    by (simp add: conj_commute)
  ultimately show ?thesis
    by (simp only: sum_list_sort_key traded_qty_def demand_qty_def supply_qty_def)
qed

lemma uniform_price_mechanism_Some:
  assumes "find_clearing_price_and_quantity bids = (Some q, Some p)"
  shows "uniform_price_mechanism bids =
     (execute_trades p q (sort_key price (filter (\<lambda>b. \<not> buying b \<and> price b \<le> p) bids)) []
      @ execute_trades p q (sort_key (\<lambda>b. - price b) (filter (\<lambda>b. buying b \<and> p \<le> price b) bids)) [],
      \<lparr>clearing_quantity = py_round4 q, clearing_price = Some (py_round4 p)\<rparr>)"
proof -
  have q: "q = traded_qty (filter buying bids) (filter (\<lambda>b. \<not> buying b) bids) p"
    using find_clearing_Some [OF assms] by simp
  show ?thesis
    unfolding uniform_price_mechanism_def assms Let_def traded_quantity_recomputed
    by (simp add: q [symmetric] execute_trades_append [of p q _ "execute_trades _ _ _ _"])
qed

lemmas up_eval = uniform_price_mechanism_def find_clearing_price_and_quantity_def
  candidate_prices_def traded_qty_def demand_qty_def supply_qty_def add_transaction_def
  py_round4_def Let_def floor_rat_numeral_div floor_rat_neg_numeral_div

lemma py_round4_0: "py_round4 0 = 0" by (simp add: py_round4_def)

lemma spec_example_run:
  "uniform_price_mechanism spec_example =
     ([\<lparr>tx_bid = 3, tx_quantity = 8, tx_price = 0.25, tx_source = - 1, tx_active = False\<rparr>,
       \<lparr>tx_bid = 4, tx_quantity = 2, tx_price = 0.25, tx_source = - 1, tx_active = False\<rparr>,
       \<lparr>tx_bid = 1, tx_quantity = 10, tx_price = 0.25, tx_source = - 1, tx_active = False\<rparr>],
      \<lparr>clearing_quantity = 10, clearing_price = Some 0.25\<rparr>)"
  by (simp add: spec_example_def up_eval)

lemma uniform_price_summary_spec:
  assumes "filter buying bids \<noteq> []" and "filter (\<lambda>b. \<not> buying b) bids \<noteq> []"
  shows "snd (uniform_price_mechanism bids) =
      (case spec_clearing bids of (q, p) \<Rightarrow>
         \<lparr>clearing_quantity = py_round4 q, clearing_price = map_option py_round4 p\<rparr>)"
proof (cases "spec_clearing bids")
  case (Pair q po)
  show ?thesis
  proof (cases po)
    case None
    with Pair have "spec_clearing bids = (0, None)"
      by (auto simp: spec_clearing_def Let_def split: if_splits)
    moreover from Pair None have "find_clearing_price_and_quantity bids = (None, None)"
      using find_clearing_spec [OF assms] by simp
    ultimately show ?thesis
      by (simp add: uniform_price_mechanism_def py_round4_0)
  next
    case (Some p)
    with Pair have "find_clearing_price_and_quantity bids = (Some q, Some p)"
      using find_clearing_spec [OF assms] by simp
    then show ?thesis
      using Pair Some by (simp add: uniform_price_mechanism_Some)
  qed
qed

lemma spec_clearing_tie_example: "spec_clearing tie_example = (5, Some 0.10)"
  by code_simp

text \<open>
  Claim C1, amended. For a table with at least one buy and one sell bid the summary of
  the uniform-price mechanism is the clearing of the specification: the lowest candidate
  price that attains the maximal traded quantity, or quantity \<open>0\<close> and no price when no
  candidate trades anything (both rounded to four decimals, as the source reports them).
  On the worked example of the specification the mechanism clears \<open>10\<close> units at \<open>0.25\<close>:
  seller 3 is filled for \<open>8\<close>, seller 4 for \<open>2\<close>, buyer 1 for \<open>10\<close>, and buyer 2 is not
  filled.
\<close>

theorem uniform_price_clearing_scan:
  "(filter buying bids \<noteq> [] \<and> filter (\<lambda>b. \<not> buying b) bids \<noteq> [] \<longrightarrow>
      snd (uniform_price_mechanism bids) =
        (case spec_clearing bids of (q, p) \<Rightarrow>
           \<lparr>clearing_quantity = py_round4 q, clearing_price = map_option py_round4 p\<rparr>))
   \<and> snd (uniform_price_mechanism spec_example)
         = \<lparr>clearing_quantity = 10, clearing_price = Some 0.25\<rparr>
   \<and> map (filled (fst (uniform_price_mechanism spec_example))) [1, 2, 3, 4] = [10, 0, 8, 2]"
proof (intro conjI impI)
  assume "filter buying bids \<noteq> [] \<and> filter (\<lambda>b. \<not> buying b) bids \<noteq> []"
  then show "snd (uniform_price_mechanism bids) =
        (case spec_clearing bids of (q, p) \<Rightarrow>
           \<lparr>clearing_quantity = py_round4 q, clearing_price = map_option py_round4 p\<rparr>)"
    using uniform_price_summary_spec by blast
next
  show "snd (uniform_price_mechanism spec_example)
         = \<lparr>clearing_quantity = 10, clearing_price = Some 0.25\<rparr>"
    by (simp add: spec_example_run)
next
  show "map (filled (fst (uniform_price_mechanism spec_example))) [1, 2, 3, 4] = [10, 0, 8, 2]"
    by (simp add: spec_example_run filled_def)
qed

theorem uniform_price_clearing_scan_witness:
  "filter buying tie_example \<noteq> [] \<and> filter (\<lambda>b. \<not> buying b) tie_example \<noteq> []
   \<and> spec_clearing tie_example = (5, Some 0.10)
   \<and> snd (uniform_price_mechanism tie_example)
        = \<lparr>clearing_quantity = 5, clearing_price = Some 0.10\<rparr>"
proof -
  have h: "filter buying tie_example \<noteq> [] \<and> filter (\<lambda>b. \<not> buying b) tie_example \<noteq> []"
    by (simp add: tie_example_def)
  have r: "py_round4 5 = 5" "py_round4 0.10 = 0.10"
    by (simp_all add: py_round4_def)
  from h uniform_price_clearing_scan [of tie_example]
  have "snd (uniform_price_mechanism tie_example) =
        (case spec_clearing tie_example of (q, p) \<Rightarrow>
           \<lparr>clearing_quantity = py_round4 q, clearing_price = map_option py_round4 p\<rparr>)"
    by blast
  then have "snd (uniform_price_mechanism tie_example)
      = \<lparr>clearing_quantity = 5, clearing_price = Some 0.10\<rparr>"
    by (simp only: spec_clearing_tie_example prod.case option.map r)
  with h spec_clearing_tie_example show ?thesis by blast
qed

text \<open>
  The worked example as the specification states it (clearing price \<open>0.20\<close>, quantity
  \<open>15\<close>, seller 4 filled for \<open>7\<close>, buyer 2 filled for \<open>5\<close>) is not what the mechanism
  computes: at \<open>0.20\<close> only seller 3 offers, so the supply is \<open>8\<close>, not \<open>18\<close>.
\<close>

theorem spec_example_counterexample:
  "clearing_price (snd (uniform_price_mechanism spec_example)) \<noteq> Some 0.20
   \<and> clearing_quantity (snd (uniform_price_mechanism spec_example)) \<noteq> 15
   \<and> filled (fst (uniform_price_mechanism spec_example)) 4 \<noteq> 7
   \<and> filled (fst (uniform_price_mechanism spec_example)) 2 \<noteq> 5
   \<and> supply_qty (filter (\<lambda>b. \<not> buying b) spec_example) 0.20 = 8"
  by (simp add: spec_example_run filled_def) (simp add: spec_example_def supply_qty_def)











section \<open>Properties of the two-step drivers\<close>

lemma merge_transactions_copy: "merge_transactions trs L = trs @ L"
proof (induction L arbitrary: trs)
  case Nil
  show ?case by (simp add: merge_transactions_def)
next
  case (Cons r L)
  have "add_transaction trs (tx_bid r) (tx_quantity r) (tx_price r) (tx_source r) (tx_active r)
      = trs @ [r]"
    by (simp add: add_transaction_def)
  then show ?case
    using Cons.IH [of "trs @ [r]"] by (simp add: merge_transactions_def)
qed

lemma two_steps_skip:
  assumes "unsold_quantity bids \<le> 0 \<or> demanded_quantity bids \<le> 0"
  shows "two_steps step2 bids =
     Some (Inr (fst (uniform_price_mechanism bids),
       \<lparr>UP_quantity = clearing_quantity (snd (uniform_price_mechanism bids)),
        UP_price = clearing_price (snd (uniform_price_mechanism bids)),
        mechanism_quantity = 0,
        mechanism_price = clearing_price (snd (uniform_price_mechanism bids)),
        total_quantity = clearing_quantity (snd (uniform_price_mechanism bids))\<rparr>))"
proof -
  from assms have g: "(0 < unsold_quantity bids \<and> 0 < demanded_quantity bids) = False"
    by auto
  show ?thesis
    unfolding two_steps_def g by (simp add: merge_transactions_copy split_beta Let_def)
qed

lemma two_steps_run:
  assumes "uniform_price_mechanism bids = (L, r)"
    and "0 < unsold_quantity bids" and "0 < demanded_quantity bids"
  shows "two_steps step2 bids =
     (case step2 (bids_uncovered bids) L (clearing_price r) of
        None \<Rightarrow> None
      | Some (Inl e) \<Rightarrow> Some (Inl e)
      | Some (Inr (trs', Mq, Mprice)) \<Rightarrow>
          Some (Inr (trs',
            \<lparr>UP_quantity = clearing_quantity r, UP_price = clearing_price r,
             mechanism_quantity = Mq,
             mechanism_price = (case Mprice of None \<Rightarrow> clearing_price r | Some x \<Rightarrow> Some x),
             total_quantity = clearing_quantity r + Mq\<rparr>)))"
  using assms by (simp add: two_steps_def merge_transactions_copy Let_def)

lemmas sides_eval = allocate_sides_def long_short_def buying_bids_of_def selling_bids_of_def
  series_mean_def series_max_def series_min_def sub_quantity_def add_transaction_def Let_def

subsection \<open>The example rounds, step by step\<close>

lemma tie_example_run:
  "uniform_price_mechanism tie_example =
     ([\<lparr>tx_bid = 2, tx_quantity = 5, tx_price = 0.10, tx_source = - 1, tx_active = False\<rparr>,
       \<lparr>tx_bid = 1, tx_quantity = 5, tx_price = 0.10, tx_source = - 1, tx_active = False\<rparr>],
      \<lparr>clearing_quantity = 5, clearing_price = Some 0.10\<rparr>)"
  by (simp add: tie_example_def up_eval)

lemma tie_example_covered:
  "unsold_quantity tie_example = 0" "demanded_quantity tie_example = 0"
  unfolding unsold_quantity_def demanded_quantity_def remaining_bids_def tie_example_run
  by (simp_all add: update_remaining_def sub_quantity_def tie_example_def)

lemma spec_example_remaining:
  "remaining_bids spec_example =
     [\<lparr>idx = 1, buying = True, quantity = 0, price = 0.30\<rparr>,
      \<lparr>idx = 2, buying = True, quantity = 5, price = 0.20\<rparr>,
      \<lparr>idx = 3, buying = False, quantity = 0, price = 0.10\<rparr>,
      \<lparr>idx = 4, buying = False, quantity = 8, price = 0.25\<rparr>]"
  unfolding remaining_bids_def spec_example_run
  by (simp add: update_remaining_def sub_quantity_def spec_example_def)

lemma spec_example_uncovered:
  "bids_uncovered spec_example =
     [\<lparr>idx = 2, buying = True, quantity = 5, price = 0.20\<rparr>,
      \<lparr>idx = 4, buying = False, quantity = 8, price = 0.25\<rparr>]"
  "unsold_quantity spec_example = 8" "demanded_quantity spec_example = 5"
  by (simp_all add: bids_uncovered_def unsold_quantity_def demanded_quantity_def
      spec_example_remaining)

lemma spec_example_CFRM:
  "cap_and_floor_range_midpoint (bids_uncovered spec_example) L =
     (([\<lparr>idx = 2, buying = True, quantity = 0, price = 0.20\<rparr>,
        \<lparr>idx = 4, buying = False, quantity = 8, price = 0.25\<rparr>], Some 0.225),
      L @ [\<lparr>tx_bid = 2, tx_quantity = 5, tx_price = 0.225, tx_source = - 1, tx_active = False\<rparr>])"
  unfolding spec_example_uncovered
  by (simp add: cap_and_floor_range_midpoint_def sides_eval)

text \<open>A round in which the first step clears nothing leaves every bid uncovered.\<close>

lemma nothing_cleared:
  assumes "uniform_price_mechanism bids = ([], r)"
  shows "remaining_bids bids = bids"
  by (simp add: remaining_bids_def assms update_remaining_def)

lemma short_long_example_run:
  "uniform_price_mechanism short_long_example =
     ([], \<lparr>clearing_quantity = 0, clearing_price = None\<rparr>)"
  by (simp add: short_long_example_def up_eval)

lemma low_price_example_run:
  "uniform_price_mechanism low_price_example =
     ([], \<lparr>clearing_quantity = 0, clearing_price = None\<rparr>)"
  by (simp add: low_price_example_def up_eval)

lemma spread_example_run:
  "uniform_price_mechanism spread_example =
     ([], \<lparr>clearing_quantity = 0, clearing_price = None\<rparr>)"
  by (simp add: spread_example_def up_eval)

lemma low_price_example_uncovered:
  "bids_uncovered low_price_example = low_price_example"
  "unsold_quantity low_price_example = 6" "demanded_quantity low_price_example = 4"
  unfolding bids_uncovered_def unsold_quantity_def demanded_quantity_def
    nothing_cleared [OF low_price_example_run]
  by (simp_all add: low_price_example_def)

lemma spread_example_uncovered:
  "bids_uncovered spread_example = spread_example"
  "unsold_quantity spread_example = 6" "demanded_quantity spread_example = 4"
  unfolding bids_uncovered_def unsold_quantity_def demanded_quantity_def
    nothing_cleared [OF spread_example_run]
  by (simp_all add: spread_example_def)

lemma low_price_example_CFRM:
  "cap_and_floor_range_midpoint low_price_example [] =
     (([\<lparr>idx = 1, buying = True, quantity = 0, price = 0.02\<rparr>,
        \<lparr>idx = 2, buying = False, quantity = 6, price = 0.04\<rparr>], Some 0.03),
      [\<lparr>tx_bid = 1, tx_quantity = 4, tx_price = 0.03, tx_source = - 1, tx_active = False\<rparr>])"
  by (simp add: low_price_example_def cap_and_floor_range_midpoint_def sides_eval)

lemma spread_example_MPAS:
  "marginal_price_adjusted_by_spread spread_example [] 1 =
     ([\<lparr>idx = 1, buying = True, quantity = 0, price = 0.12\<rparr>,
       \<lparr>idx = 2, buying = False, quantity = 6, price = 0.20\<rparr>],
      [\<lparr>tx_bid = 1, tx_quantity = 4, tx_price = 0.08, tx_source = - 1, tx_active = False\<rparr>])"
  by (simp add: spread_example_def marginal_price_adjusted_by_spread_def sides_eval)

subsection \<open>Claim C6: a covered side switches the residual phase off\<close>

text \<open>
  Claim C6. When, after the primary clearing, the remaining sell quantity or the
  remaining buy quantity is zero, a two-step driver returns the ledger of the primary
  clearing unchanged and reports residual quantity \<open>0\<close> and the primary clearing price as
  the residual price. This holds for the driver skeleton with any residual mechanism in
  it, and so for the drivers of CFRM, APM, WAM, MMP, MPAS, IPA, NBS, UPNR and CGTS.
\<close>

theorem residual_phase_skipped:
  assumes "unsold_quantity bids = 0 \<or> demanded_quantity bids = 0"
  shows "two_steps step2 bids =
     Some (Inr (fst (uniform_price_mechanism bids),
       \<lparr>UP_quantity = clearing_quantity (snd (uniform_price_mechanism bids)),
        UP_price = clearing_price (snd (uniform_price_mechanism bids)),
        mechanism_quantity = 0,
        mechanism_price = clearing_price (snd (uniform_price_mechanism bids)),
        total_quantity = clearing_quantity (snd (uniform_price_mechanism bids))\<rparr>))"
  using assms by (intro two_steps_skip) auto

theorem residual_phase_skipped_witness:
  "unsold_quantity tie_example = 0
   \<and> two_steps_CFRM_mechanism 0.1 0.25 tie_example =
       Some (Inr ([\<lparr>tx_bid = 2, tx_quantity = 5, tx_price = 0.10, tx_source = - 1, tx_active = False\<rparr>,
                   \<lparr>tx_bid = 1, tx_quantity = 5, tx_price = 0.10, tx_source = - 1, tx_active = False\<rparr>],
                  \<lparr>UP_quantity = 5, UP_price = Some 0.10, mechanism_quantity = 0,
                   mechanism_price = Some 0.10, total_quantity = 5\<rparr>))
   \<and> two_steps_UPNR_mechanism 0.1 0.25 tie_example =
       Some (Inr ([\<lparr>tx_bid = 2, tx_quantity = 5, tx_price = 0.10, tx_source = - 1, tx_active = False\<rparr>,
                   \<lparr>tx_bid = 1, tx_quantity = 5, tx_price = 0.10, tx_source = - 1, tx_active = False\<rparr>],
                  \<lparr>UP_quantity = 5, UP_price = Some 0.10, mechanism_quantity = 0,
                   mechanism_price = Some 0.10, total_quantity = 5\<rparr>))"
proof -
  have h: "unsold_quantity tie_example = 0 \<or> demanded_quantity tie_example = 0"
    by (simp add: tie_example_covered)
  show ?thesis
    unfolding two_steps_CFRM_mechanism_def two_steps_UPNR_mechanism_def
      residual_phase_skipped [OF h]
    by (simp add: tie_example_covered tie_example_run)
qed

lemma two_steps_drivers_skip:
  assumes "unsold_quantity bids = 0 \<or> demanded_quantity bids = 0"
  shows "two_steps_CFRM_mechanism FIT TOU bids = two_steps step2 bids"
    and "two_steps_APM_mechanism FIT TOU bids = two_steps step2 bids"
    and "two_steps_WAM_mechanism FIT TOU bids = two_steps step2 bids"
    and "two_steps_MMP_mechanism FIT TOU bids = two_steps step2 bids"
    and "two_steps_MPAS_mechanism FIT TOU alpha bids = two_steps step2 bids"
    and "two_steps_IPA_mechanism FIT TOU theta epsilon bids = two_steps step2 bids"
    and "two_steps_NBS_mechanism FIT TOU cap floor_p theta epsilon bids = two_steps step2 bids"
    and "two_steps_UPNR_mechanism FIT TOU bids = two_steps step2 bids"
    and "fst (two_steps_CGTS_mechanism shuffle FIT TOU cap floor_p n kwargs bids g)
           = two_steps step2 bids"
proof -
  have h: "unsold_quantity bids \<le> 0 \<or> demanded_quantity bids \<le> 0" using assms by auto
  show "two_steps_CFRM_mechanism FIT TOU bids = two_steps step2 bids"
    and "two_steps_APM_mechanism FIT TOU bids = two_steps step2 bids"
    and "two_steps_WAM_mechanism FIT TOU bids = two_steps step2 bids"
    and "two_steps_MMP_mechanism FIT TOU bids = two_steps step2 bids"
    and "two_steps_MPAS_mechanism FIT TOU alpha bids = two_steps step2 bids"
    and "two_steps_IPA_mechanism FIT TOU theta epsilon bids = two_steps step2 bids"
    and "two_steps_NBS_mechanism FIT TOU cap floor_p theta epsilon bids = two_steps step2 bids"
    and "two_steps_UPNR_mechanism FIT TOU bids = two_steps step2 bids"
    and "fst (two_steps_CGTS_mechanism shuffle FIT TOU cap floor_p n kwargs bids g)
           = two_steps step2 bids"
    unfolding two_steps_CFRM_mechanism_def two_steps_APM_mechanism_def
      two_steps_WAM_mechanism_def two_steps_MMP_mechanism_def two_steps_MPAS_mechanism_def
      two_steps_IPA_mechanism_def two_steps_NBS_mechanism_def two_steps_UPNR_mechanism_def
      two_steps_CGTS_mechanism_def fst_conv
    by (simp_all only: two_steps_skip [OF h])
qed

subsection \<open>Claim C3: the residual prices of CFRM and MPAS are not clipped\<close>

text \<open>
  Claim C3 does not hold on the code. With the bounds \<open>FIT = 0.10\<close> and \<open>TOU = 0.25\<close>, the
  CFRM driver records the midpoint \<open>0.03\<close> of a buyer at \<open>0.02\<close> and a seller at
  \<open>0.04\<close>, and the MPAS driver with \<open>alpha = 1\<close> records \<open>0.08\<close> for a buyer at \<open>0.12\<close>
  and a seller at \<open>0.20\<close>: both prices lie below the floor. The drivers take the bounds
  and never use them.
\<close>

theorem residual_price_below_floor:
  "two_steps_CFRM_mechanism 0.10 0.25 low_price_example =
     Some (Inr ([\<lparr>tx_bid = 1, tx_quantity = 4, tx_price = 0.03, tx_source = - 1, tx_active = False\<rparr>],
                \<lparr>UP_quantity = 0, UP_price = None, mechanism_quantity = 6,
                 mechanism_price = Some 0.03, total_quantity = 6\<rparr>))
   \<and> two_steps_MPAS_mechanism 0.10 0.25 1 spread_example =
     Some (Inr ([\<lparr>tx_bid = 1, tx_quantity = 4, tx_price = 0.08, tx_source = - 1, tx_active = False\<rparr>],
                \<lparr>UP_quantity = 0, UP_price = None, mechanism_quantity = 6,
                 mechanism_price = Some 0.16, total_quantity = 6\<rparr>))
   \<and> (0.03 :: rat) < 0.10 \<and> (0.08 :: rat) < 0.10"
proof (intro conjI)
  show "two_steps_CFRM_mechanism 0.10 0.25 low_price_example =
     Some (Inr ([\<lparr>tx_bid = 1, tx_quantity = 4, tx_price = 0.03, tx_source = - 1, tx_active = False\<rparr>],
                \<lparr>UP_quantity = 0, UP_price = None, mechanism_quantity = 6,
                 mechanism_price = Some 0.03, total_quantity = 6\<rparr>))"
    unfolding two_steps_CFRM_mechanism_def
    by (subst two_steps_run [OF low_price_example_run])
       (simp_all add: low_price_example_uncovered low_price_example_CFRM)
  show "two_steps_MPAS_mechanism 0.10 0.25 1 spread_example =
     Some (Inr ([\<lparr>tx_bid = 1, tx_quantity = 4, tx_price = 0.08, tx_source = - 1, tx_active = False\<rparr>],
                \<lparr>UP_quantity = 0, UP_price = None, mechanism_quantity = 6,
                 mechanism_price = Some 0.16, total_quantity = 6\<rparr>))"
    unfolding two_steps_MPAS_mechanism_def
    by (subst two_steps_run [OF spread_example_run])
       (simp_all add: spread_example_uncovered spread_example_MPAS series_mean_def)
qed simp_all

subsection \<open>Claims C4 and C5: what the common allocation records and reports\<close>

text \<open>
  The first loop counts \<^verbatim>\<open>traded_quantity\<close> down while it fills the short side, and the
  second loop stops as soon as \<^verbatim>\<open>traded_quantity\<close> is not positive. On uncovered bids
  (every quantity positive) the first loop fills every short-side bid and leaves
  \<^verbatim>\<open>traded_quantity\<close> at zero, so the second loop records nothing.
\<close>

lemma short_side_loop_all:
  assumes "\<And>x. x \<in> set xs \<Longrightarrow> 0 < quantity x"
    and "sum_list (map quantity xs) \<le> t"
  shows "\<exists>bu'. short_side_loop pf xs (bu, trs, t) =
     (bu', trs @ map (\<lambda>x. \<lparr>tx_bid = idx x, tx_quantity = quantity x, tx_price = pf x,
                              tx_source = - 1, tx_active = False\<rparr>) xs,
      t - sum_list (map quantity xs))"
  using assms
proof (induction xs arbitrary: bu trs t)
  case Nil
  show ?case by simp
next
  case (Cons x xs)
  have qx: "0 < quantity x" using Cons.prems(1) by simp
  have rest: "0 \<le> sum_list (map quantity xs)"
    using Cons.prems(1) by (intro sum_list_nonneg) (auto intro: less_imp_le)
  have le: "quantity x \<le> t" using Cons.prems(2) rest by simp
  then have m: "min (quantity x) t = quantity x" by simp
  have tpos: "\<not> t \<le> 0" using qx le by simp
  have "sum_list (map quantity xs) \<le> t - quantity x" using Cons.prems(2) by simp
  from Cons.IH [OF _ this, of "sub_quantity bu (idx x) (quantity x)"
      "add_transaction trs (idx x) (quantity x) (pf x) (- 1) False"] Cons.prems(1)
  obtain bu' where "short_side_loop pf xs
       (sub_quantity bu (idx x) (quantity x),
        add_transaction trs (idx x) (quantity x) (pf x) (- 1) False, t - quantity x) =
     (bu', add_transaction trs (idx x) (quantity x) (pf x) (- 1) False
           @ map (\<lambda>x. \<lparr>tx_bid = idx x, tx_quantity = quantity x, tx_price = pf x,
                         tx_source = - 1, tx_active = False\<rparr>) xs,
      t - quantity x - sum_list (map quantity xs))"
    by auto
  then show ?case
    using tpos by (simp add: m Let_def add_transaction_def algebra_simps)
qed

lemma long_side_loop_nothing:
  "t \<le> 0 \<Longrightarrow> long_side_loop pf t xs (bu, trs, qa) = (bu, trs, qa)"
  by (cases xs) simp_all

lemma allocate_sides_short_only:
  assumes "\<And>x. x \<in> set bu \<Longrightarrow> 0 < quantity x"
  shows "snd (allocate_sides sp lp bu trs) =
     trs @ map (\<lambda>x. \<lparr>tx_bid = idx x, tx_quantity = quantity x, tx_price = sp x,
                       tx_source = - 1, tx_active = False\<rparr>) (snd (long_short bu))"
proof -
  obtain long_side short_side where ls: "long_short bu = (long_side, short_side)"
    by (cases "long_short bu")
  have "set short_side \<subseteq> set bu"
    using ls by (auto simp: long_short_def buying_bids_of_def selling_bids_of_def Let_def
        split: if_splits)
  then have pos: "\<And>x. x \<in> set short_side \<Longrightarrow> 0 < quantity x" using assms by auto
  from short_side_loop_all [OF pos order_refl, of short_side sp bu trs]
  obtain bu' where "short_side_loop sp short_side (bu, trs, sum_list (map quantity short_side)) =
     (bu', trs @ map (\<lambda>x. \<lparr>tx_bid = idx x, tx_quantity = quantity x, tx_price = sp x,
                              tx_source = - 1, tx_active = False\<rparr>) short_side, 0)"
    by auto
  then show ?thesis
    by (simp add: allocate_sides_def ls Let_def long_side_loop_nothing)
qed

lemma short_long_example_CFRM:
  "cap_and_floor_range_midpoint short_long_example [] =
     (([\<lparr>idx = 1, buying = True, quantity = 0, price = 0.18\<rparr>,
        \<lparr>idx = 2, buying = False, quantity = 6, price = 0.22\<rparr>], Some 0.20),
      [\<lparr>tx_bid = 1, tx_quantity = 4, tx_price = 0.20, tx_source = - 1, tx_active = False\<rparr>])"
  by (simp add: short_long_example_def cap_and_floor_range_midpoint_def sides_eval)

text \<open>
  Claim C4 does not hold on the code. On an uncovered buyer of \<open>4\<close> and an uncovered
  seller of \<open>6\<close> the CFRM mechanism records the buyer (the short side) for \<open>4\<close> and no
  transaction against the seller: the quantity recorded on the long side is \<open>0\<close>, not
  \<open>min 4 6\<close>.
\<close>

theorem long_side_left_unallocated:
  "snd (cap_and_floor_range_midpoint short_long_example []) =
     [\<lparr>tx_bid = 1, tx_quantity = 4, tx_price = 0.20, tx_source = - 1, tx_active = False\<rparr>]
   \<and> ledger_quantity (side_of short_long_example True
        (snd (cap_and_floor_range_midpoint short_long_example []))) = 4
   \<and> ledger_quantity (side_of short_long_example False
        (snd (cap_and_floor_range_midpoint short_long_example []))) = 0
   \<and> min (sum_list (map quantity (filter buying short_long_example)))
          (sum_list (map quantity (filter (\<lambda>b. \<not> buying b) short_long_example))) = 4"
  unfolding short_long_example_CFRM snd_conv
  by (simp add: short_long_example_def side_of_def ledger_quantity_def)

text \<open>
  Claim C5 does not hold on the code. On the worked example of the specification the
  CFRM driver records one residual transaction, of quantity \<open>5\<close>, and reports the
  residual quantity \<open>8\<close> (the quantity left on the uncovered bids after the residual
  phase) and the total \<open>18\<close>.
\<close>

theorem reported_residual_quantity_is_remainder:
  "two_steps_CFRM_mechanism 0.10 0.25 spec_example =
     Some (Inr (fst (uniform_price_mechanism spec_example)
                @ [\<lparr>tx_bid = 2, tx_quantity = 5, tx_price = 0.225, tx_source = - 1,
                    tx_active = False\<rparr>],
                \<lparr>UP_quantity = 10, UP_price = Some 0.25, mechanism_quantity = 8,
                 mechanism_price = Some 0.225, total_quantity = 18\<rparr>))
   \<and> ledger_quantity [\<lparr>tx_bid = 2, tx_quantity = 5, tx_price = 0.225, tx_source = - 1,
                        tx_active = False\<rparr>] = 5"
proof (intro conjI)
  show "two_steps_CFRM_mechanism 0.10 0.25 spec_example =
     Some (Inr (fst (uniform_price_mechanism spec_example)
                @ [\<lparr>tx_bid = 2, tx_quantity = 5, tx_price = 0.225, tx_source = - 1,
                    tx_active = False\<rparr>],
                \<lparr>UP_quantity = 10, UP_price = Some 0.25, mechanism_quantity = 8,
                 mechanism_price = Some 0.225, total_quantity = 18\<rparr>))"
    unfolding two_steps_CFRM_mechanism_def
    by (subst two_steps_run [OF spec_example_run])
       (simp_all add: spec_example_uncovered(2,3) spec_example_CFRM spec_example_run)
  show "ledger_quantity [\<lparr>tx_bid = 2, tx_quantity = 5, tx_price = 0.225, tx_source = - 1,
                        tx_active = False\<rparr>] = 5"
    by (simp add: ledger_quantity_def)
qed

section \<open>The price-adjustment loop and the pairwise matching\<close>

lemma fold_min_le: "fold min xs (a::rat) \<le> a"
proof (induction xs arbitrary: a)
  case Nil
  show ?case by simp
next
  case (Cons x xs)
  have "fold min xs (min x a) \<le> min x a" by (rule Cons.IH)
  also have "\<dots> \<le> a" by simp
  finally show ?case by simp
qed

lemma price_range_ordered:
  assumes "bu \<noteq> []"
  shows "\<exists>pmax pmin. price_range bu = Some (pmax, pmin) \<and> pmin \<le> pmax"
proof -
  from assms obtain b bs where bu: "bu = b # bs" by (cases bu) auto
  have "fold min (map price bs) (price b) \<le> price b" by (rule fold_min_le)
  also have "price b \<le> fold max (map price bs) (price b)" by (rule fold_max_ge)
  finally show ?thesis
    by (simp add: bu price_range_def series_max_def series_min_def)
qed

lemma clipped_update_inside:
  assumes "FIT \<le> TOU" and "0 \<le> theta" and "pmin \<le> pmax" and "FIT \<le> a" and "a \<le> TOU"
  shows "clipped_update theta FIT TOU (Some (pmax, pmin)) a
           = min (a + theta * (pmax - pmin) / 2) TOU"
    and "a \<le> clipped_update theta FIT TOU (Some (pmax, pmin)) a"
proof -
  have c: "0 \<le> theta * (pmax - pmin) / 2" using assms(2,3) by simp
  have e: "(pmax - a) + (a - pmin) = pmax - pmin" by simp
  show "clipped_update theta FIT TOU (Some (pmax, pmin)) a
           = min (a + theta * (pmax - pmin) / 2) TOU"
    using assms(1,4,5) c by (simp add: clipped_update_def e max_def min_def)
  then show "a \<le> clipped_update theta FIT TOU (Some (pmax, pmin)) a"
    using assms(5) c by simp
qed

lemma clipped_update_bounds:
  assumes "FIT \<le> TOU"
  shows "FIT \<le> clipped_update theta FIT TOU prange a"
    and "clipped_update theta FIT TOU prange a \<le> TOU"
  using assms by (auto simp: clipped_update_def split: option.splits)

lemma price_adjustment_loop_inside:
  assumes "FIT \<le> TOU" and "0 \<le> theta" and "pmin \<le> pmax" and "0 < epsilon"
  shows "FIT \<le> a \<Longrightarrow> a \<le> TOU \<Longrightarrow> TOU - a \<le> of_nat n * epsilon \<Longrightarrow>
     \<exists>p. price_adjustment_loop theta epsilon FIT TOU (Some (pmax, pmin)) a = Some p
        \<and> \<bar>clipped_update theta FIT TOU (Some (pmax, pmin)) p - p\<bar> < epsilon"
proof (induction n arbitrary: a)
  case 0
  then have "a = TOU" by simp
  moreover have "clipped_update theta FIT TOU (Some (pmax, pmin)) TOU = TOU"
    using clipped_update_inside(2) [OF assms(1-3), of TOU] clipped_update_bounds(2) [OF assms(1)]
    by (simp add: assms(1) order_antisym)
  ultimately show ?case
    using assms(4) by (subst price_adjustment_loop.simps) (simp add: Let_def)
next
  case (Suc n)
  let ?u = "clipped_update theta FIT TOU (Some (pmax, pmin))"
  show ?case
  proof (cases "\<bar>?u a - a\<bar> < epsilon")
    case True
    then show ?thesis
      by (subst price_adjustment_loop.simps) (simp add: Let_def)
  next
    case False
    have ge: "a \<le> ?u a" by (rule clipped_update_inside(2) [OF assms(1-3) Suc.prems(1,2)])
    with False have step: "epsilon \<le> ?u a - a" by simp
    have "TOU - ?u a \<le> TOU - a - epsilon" using step by simp
    also have "\<dots> \<le> of_nat n * epsilon" using Suc.prems(3) by (simp add: algebra_simps)
    finally have "TOU - ?u a \<le> of_nat n * epsilon" .
    from Suc.IH [OF clipped_update_bounds [OF assms(1)] this]
    obtain p where "price_adjustment_loop theta epsilon FIT TOU (Some (pmax, pmin)) (?u a) = Some p"
      "\<bar>?u p - p\<bar> < epsilon" by blast
    then show ?thesis
      using False by (subst price_adjustment_loop.simps) (simp add: Let_def)
  qed
qed

lemma price_adjustment_loop_returns:
  assumes "FIT \<le> TOU" and "0 \<le> theta" and "pmin \<le> pmax" and "0 < epsilon"
  shows "\<exists>p. price_adjustment_loop theta epsilon FIT TOU (Some (pmax, pmin)) MP = Some p
        \<and> \<bar>clipped_update theta FIT TOU (Some (pmax, pmin)) p - p\<bar> < epsilon"
proof (cases "\<bar>clipped_update theta FIT TOU (Some (pmax, pmin)) MP - MP\<bar> < epsilon")
  case True
  then show ?thesis
    by (subst price_adjustment_loop.simps) (simp add: Let_def)
next
  case False
  let ?u = "clipped_update theta FIT TOU (Some (pmax, pmin))"
  obtain n :: nat where "(TOU - ?u MP) / epsilon \<le> of_nat n"
    using real_arch_simple by blast
  then have "TOU - ?u MP \<le> of_nat n * epsilon"
    using assms(4) by (simp add: pos_divide_le_eq)
  from price_adjustment_loop_inside [OF assms clipped_update_bounds [OF assms(1)] this]
  obtain p where "price_adjustment_loop theta epsilon FIT TOU (Some (pmax, pmin)) (?u MP) = Some p"
      "\<bar>?u p - p\<bar> < epsilon" by blast
  then show ?thesis
    using False by (subst price_adjustment_loop.simps) (simp add: Let_def)
qed

subsection \<open>The round with the uncovered buyer and two uncovered sellers, step by step\<close>

lemma over_allocation_example_run:
  "uniform_price_mechanism over_allocation_example =
     ([\<lparr>tx_bid = 2, tx_quantity = 5, tx_price = 0.10, tx_source = - 1, tx_active = False\<rparr>,
       \<lparr>tx_bid = 1, tx_quantity = 5, tx_price = 0.10, tx_source = - 1, tx_active = False\<rparr>],
      \<lparr>clearing_quantity = 5, clearing_price = Some 0.10\<rparr>)"
  by (simp add: over_allocation_example_def up_eval)

lemma over_allocation_example_uncovered:
  "bids_uncovered over_allocation_example =
     [\<lparr>idx = 3, buying = True, quantity = 10, price = 0.05\<rparr>,
      \<lparr>idx = 4, buying = False, quantity = 4, price = 0.50\<rparr>,
      \<lparr>idx = 5, buying = False, quantity = 8, price = 0.60\<rparr>]"
  "unsold_quantity over_allocation_example = 12"
  "demanded_quantity over_allocation_example = 10"
  unfolding bids_uncovered_def unsold_quantity_def demanded_quantity_def remaining_bids_def
    over_allocation_example_run
  by (simp_all add: update_remaining_def sub_quantity_def over_allocation_example_def)

lemma over_allocation_example_range:
  "price_range (bids_uncovered over_allocation_example) = Some (3 / 5, 1 / 20)"
  unfolding over_allocation_example_uncovered
  by (simp add: price_range_def series_max_def series_min_def)

lemma over_allocation_example_loop:
  "price_adjustment_loop (1 / 10) (1 / 100) (1 / 10) (1 / 4) (Some (3 / 5, 1 / 20)) (1 / 10)
     = Some (1 / 4)"
  by (simp add: price_adjustment_loop.simps clipped_update_def Let_def)

lemma over_allocation_example_matching:
  "pairwise_matching (\<lambda>i j. c) (bids_uncovered over_allocation_example) L =
     ([\<lparr>idx = 3, buying = True, quantity = - 2, price = 0.05\<rparr>,
       \<lparr>idx = 4, buying = False, quantity = 0, price = 0.50\<rparr>,
       \<lparr>idx = 5, buying = False, quantity = 0, price = 0.60\<rparr>],
      L @ [\<lparr>tx_bid = 3, tx_quantity = 4, tx_price = c, tx_source = - 1, tx_active = False\<rparr>,
           \<lparr>tx_bid = 4, tx_quantity = 4, tx_price = c, tx_source = - 1, tx_active = False\<rparr>,
           \<lparr>tx_bid = 3, tx_quantity = 8, tx_price = c, tx_source = - 1, tx_active = False\<rparr>,
           \<lparr>tx_bid = 5, tx_quantity = 8, tx_price = c, tx_source = - 1, tx_active = False\<rparr>])"
  unfolding over_allocation_example_uncovered
  by (simp add: pairwise_matching_def quantity_at_def sub_quantity_def add_transaction_def Let_def)

subsection \<open>Claim C9: the price-adjustment loop ends\<close>

text \<open>
  Claim C9. On a non-empty table of uncovered bids, with a step fraction \<open>theta\<close> in
  \<open>(0, 1)\<close>, a tolerance \<open>epsilon > 0\<close> and bounds \<open>FIT \<le> TOU\<close>, the loop of IPA returns
  from every starting price: it reaches a price whose next clipped update differs from it
  by less than \<open>epsilon\<close>. So \<^verbatim>\<open>iterative_price_adjustment\<close> returns, and so does
  \<^verbatim>\<open>nash_bargaining_solution\<close>, which runs the same loop between its floor and its cap.
  (Each round adds the constant \<open>theta * (pmax - pmin) / 2\<close> to the price, until the
  ceiling cuts the step below \<open>epsilon\<close>.)
\<close>

theorem price_adjustment_terminates:
  assumes "bu \<noteq> []" and "0 < theta" and "theta < 1" and "0 < epsilon" and "FIT \<le> TOU"
  shows "(\<exists>p. price_adjustment_loop theta epsilon FIT TOU (price_range bu) MP = Some p
            \<and> \<bar>clipped_update theta FIT TOU (price_range bu) p - p\<bar> < epsilon)
       \<and> iterative_price_adjustment bu trs theta epsilon MP FIT TOU \<noteq> None
       \<and> nash_bargaining_solution bu trs TOU FIT theta epsilon MP \<noteq> None"
proof -
  from price_range_ordered [OF assms(1)]
  obtain pmax pmin where r: "price_range bu = Some (pmax, pmin)" "pmin \<le> pmax" by blast
  have th: "0 \<le> theta" using assms(2) by simp
  from price_adjustment_loop_returns [OF assms(5) th r(2) assms(4), of MP]
  obtain p where p: "price_adjustment_loop theta epsilon FIT TOU (price_range bu) MP = Some p"
    "\<bar>clipped_update theta FIT TOU (price_range bu) p - p\<bar> < epsilon"
    unfolding r(1) by blast
  show ?thesis
    using p by (auto simp: iterative_price_adjustment_def nash_bargaining_solution_def
        split_beta Let_def)
qed

theorem price_adjustment_terminates_witness:
  "bids_uncovered over_allocation_example \<noteq> []
   \<and> (0 :: rat) < 0.1 \<and> (0.1 :: rat) < 1 \<and> (0 :: rat) < 0.01 \<and> (0.10 :: rat) \<le> 0.25
   \<and> price_adjustment_loop 0.1 0.01 0.10 0.25
         (price_range (bids_uncovered over_allocation_example)) 0.10 = Some 0.25
   \<and> iterative_price_adjustment (bids_uncovered over_allocation_example) [] 0.1 0.01 0.10 0.10 0.25
         \<noteq> None
   \<and> nash_bargaining_solution (bids_uncovered over_allocation_example) [] 0.25 0.10 0.1 0.01 0.10
         \<noteq> None"
proof -
  have h: "bids_uncovered over_allocation_example \<noteq> []" "(0 :: rat) < 0.1" "(0.1 :: rat) < 1"
    "(0 :: rat) < 0.01" "(0.10 :: rat) \<le> 0.25"
    by (simp_all add: over_allocation_example_uncovered)
  have l: "price_adjustment_loop 0.1 0.01 0.10 0.25
         (price_range (bids_uncovered over_allocation_example)) 0.10 = Some 0.25"
    by (simp add: over_allocation_example_range over_allocation_example_loop)
  from price_adjustment_terminates [OF h, of "0.10" "[]"] h l show ?thesis by blast
qed

subsection \<open>Claim C2: the pairwise matching allocates more than a bid holds\<close>

text \<open>
  Claim C2 does not hold on the code. In the round \<open>over_allocation_example\<close> the first
  step leaves buyer 3 with its whole quantity \<open>10\<close> and the sellers 4 and 5 with \<open>4\<close> and
  \<open>8\<close>. The matching of NBS (the same loop stands in VCG, CGT and CGTS) takes
  \<^verbatim>\<open>min(row['quantity'], seller['quantity'])\<close> for every seller, where
  \<^verbatim>\<open>row['quantity']\<close> is the quantity the buyer had when the loop started: it records
  \<open>4\<close> and then \<open>8\<close> against buyer 3, in total \<open>12\<close> against a bid of \<open>10\<close>, and
  the quantity left on the uncovered bids is \<open>-2\<close>.
\<close>

theorem pairwise_matching_over_allocates:
  "two_steps_NBS_mechanism 0.10 0.25 0.25 0.10 0.1 0.01 over_allocation_example =
     Some (Inr
       ([\<lparr>tx_bid = 2, tx_quantity = 5, tx_price = 0.10, tx_source = - 1, tx_active = False\<rparr>,
         \<lparr>tx_bid = 1, tx_quantity = 5, tx_price = 0.10, tx_source = - 1, tx_active = False\<rparr>,
         \<lparr>tx_bid = 3, tx_quantity = 4, tx_price = 0.25, tx_source = - 1, tx_active = False\<rparr>,
         \<lparr>tx_bid = 4, tx_quantity = 4, tx_price = 0.25, tx_source = - 1, tx_active = False\<rparr>,
         \<lparr>tx_bid = 3, tx_quantity = 8, tx_price = 0.25, tx_source = - 1, tx_active = False\<rparr>,
         \<lparr>tx_bid = 5, tx_quantity = 8, tx_price = 0.25, tx_source = - 1, tx_active = False\<rparr>],
        \<lparr>UP_quantity = 5, UP_price = Some 0.10, mechanism_quantity = - 2,
         mechanism_price = Some 0.25, total_quantity = 3\<rparr>))
   \<and> filled
       [\<lparr>tx_bid = 2, tx_quantity = 5, tx_price = 0.10, tx_source = - 1, tx_active = False\<rparr>,
        \<lparr>tx_bid = 1, tx_quantity = 5, tx_price = 0.10, tx_source = - 1, tx_active = False\<rparr>,
        \<lparr>tx_bid = 3, tx_quantity = 4, tx_price = 0.25, tx_source = - 1, tx_active = False\<rparr>,
        \<lparr>tx_bid = 4, tx_quantity = 4, tx_price = 0.25, tx_source = - 1, tx_active = False\<rparr>,
        \<lparr>tx_bid = 3, tx_quantity = 8, tx_price = 0.25, tx_source = - 1, tx_active = False\<rparr>,
        \<lparr>tx_bid = 5, tx_quantity = 8, tx_price = 0.25, tx_source = - 1, tx_active = False\<rparr>] 3
       = 12
   \<and> map quantity (filter (\<lambda>b. idx b = 3) over_allocation_example) = [10]"
proof (intro conjI)
  show "two_steps_NBS_mechanism 0.10 0.25 0.25 0.10 0.1 0.01 over_allocation_example =
     Some (Inr
       ([\<lparr>tx_bid = 2, tx_quantity = 5, tx_price = 0.10, tx_source = - 1, tx_active = False\<rparr>,
         \<lparr>tx_bid = 1, tx_quantity = 5, tx_price = 0.10, tx_source = - 1, tx_active = False\<rparr>,
         \<lparr>tx_bid = 3, tx_quantity = 4, tx_price = 0.25, tx_source = - 1, tx_active = False\<rparr>,
         \<lparr>tx_bid = 4, tx_quantity = 4, tx_price = 0.25, tx_source = - 1, tx_active = False\<rparr>,
         \<lparr>tx_bid = 3, tx_quantity = 8, tx_price = 0.25, tx_source = - 1, tx_active = False\<rparr>,
         \<lparr>tx_bid = 5, tx_quantity = 8, tx_price = 0.25, tx_source = - 1, tx_active = False\<rparr>],
        \<lparr>UP_quantity = 5, UP_price = Some 0.10, mechanism_quantity = - 2,
         mechanism_price = Some 0.25, total_quantity = 3\<rparr>))"
    unfolding two_steps_NBS_mechanism_def
    by (subst two_steps_run [OF over_allocation_example_run])
       (simp_all add: over_allocation_example_uncovered(2,3) nash_bargaining_solution_def
          over_allocation_example_range over_allocation_example_loop
          over_allocation_example_matching)
qed (simp_all add: filled_def over_allocation_example_def)

section \<open>The Newton-Raphson mechanism\<close>

lemma newton_example_run:
  "uniform_price_mechanism newton_example =
     ([], \<lparr>clearing_quantity = 0, clearing_price = None\<rparr>)"
  by (simp add: newton_example_def up_eval)

lemma newton_example_uncovered:
  "bids_uncovered newton_example = newton_example"
  "unsold_quantity newton_example = 4" "demanded_quantity newton_example = 4"
  unfolding bids_uncovered_def unsold_quantity_def demanded_quantity_def
    nothing_cleared [OF newton_example_run]
  by (simp_all add: newton_example_def)

lemma numerical_derivative_loop_numeral:
  "numerical_derivative_loop (numeral v) h f =
     (if (f (5 / 10000 + h) - f (5 / 10000)) / h \<noteq> 0
      then (f (5 / 10000 + h) - f (5 / 10000)) / h
      else numerical_derivative_loop (pred_numeral v) (h * 10) f)"
  unfolding numeral_eq_Suc [of v] numerical_derivative_loop.simps Let_def ..

lemma newton_raphson_loop_numeral:
  "newton_raphson_loop (numeral v) (k, last_price) buyers sellers maxQt =
     (let f_p = fprice k buyers sellers maxQt;
          f_prime_p = numerical_derivative (\<lambda>k. fprice k buyers sellers maxQt)
      in if \<bar>f_p\<bar> < 1 / 100 then Some (py_round4 (nr_price k buyers sellers))
         else if f_prime_p + 1 / 100000 = 0 then None
         else let k' = k - (1 / 10) * f_p / (f_prime_p + 1 / 100000)
              in newton_raphson_loop (pred_numeral v)
                   (k', Some (py_round4 (nr_price k' buyers sellers))) buyers sellers maxQt)"
  unfolding numeral_eq_Suc [of v] newton_raphson_loop.simps ..

text \<open>
  For a buyer of \<open>4\<close> at \<open>0.30\<close> and a seller of \<open>4\<close> at \<open>0.40\<close> the excess function is a
  step: nothing trades until \<open>k\<close> exceeds \<open>1/7\<close>.
\<close>

lemma step_fprice:
  "fprice k [\<lparr>idx = i, buying = True, quantity = 4, price = 3 / 10\<rparr>]
            [\<lparr>idx = j, buying = False, quantity = 4, price = 2 / 5\<rparr>] 4
     = (if 1 / 7 < k then 0 else 4)"
  by (simp add: fprice_def nr_price_def mean_price_def Let_def field_simps)

lemma step_derivative:
  "numerical_derivative
     (\<lambda>k. fprice k [\<lparr>idx = i, buying = True, quantity = 4, price = 3 / 10\<rparr>]
                     [\<lparr>idx = j, buying = False, quantity = 4, price = 2 / 5\<rparr>] 4) = - 4"
  by (simp add: numerical_derivative_def numerical_derivative_loop_numeral step_fprice)

lemma step_nr_price:
  "nr_price k [\<lparr>idx = i, buying = True, quantity = 4, price = 3 / 10\<rparr>]
              [\<lparr>idx = j, buying = False, quantity = 4, price = 2 / 5\<rparr>] = (7 - k) / 20"
  by (simp add: nr_price_def mean_price_def field_simps)

lemma step_derivative_normal:
  "numerical_derivative (\<lambda>k. if 1 < k * 7 then 0 else (4::rat)) = - 4"
  by (simp add: numerical_derivative_def numerical_derivative_loop_numeral)

lemma newton_example_price: "newton_price newton_example = Some (17 / 50)"
  by (simp add: newton_price_def newton_example_def buying_bids_of_def selling_bids_of_def
      find_equilibrium_newton_raphson_def newton_raphson_loop_numeral step_fprice
      step_derivative_normal step_nr_price py_round4_def floor_rat_numeral_div Let_def)

subsection \<open>Claim C8: a price outside the bounds rejects the residual round\<close>

text \<open>
  Claim C8. When the price the Newton-Raphson mechanism arrives at lies above \<open>TOU\<close> or
  below \<open>FIT\<close>, the mechanism returns the bids and the transaction manager unchanged and
  reports price \<open>0\<close> and traded quantity \<open>0\<close>.
\<close>

theorem newton_raphson_rejects_out_of_bounds:
  assumes "newton_price bu = Some p" and "TOU < p \<or> p < FIT"
  shows "newton_raphson_adjustment bu trs FIT TOU = Some ((bu, 0, 0), trs)"
  using assms by (simp add: newton_raphson_adjustment_def Let_def)

text \<open>The same in the summary of the driver: no transaction is added to the primary ledger.\<close>

lemma two_steps_UPNR_rejects:
  assumes "0 < unsold_quantity bids" and "0 < demanded_quantity bids"
    and "newton_price (bids_uncovered bids) = Some p" and "TOU < p \<or> p < FIT"
  shows "two_steps_UPNR_mechanism FIT TOU bids =
     Some (Inr (fst (uniform_price_mechanism bids),
       \<lparr>UP_quantity = clearing_quantity (snd (uniform_price_mechanism bids)),
        UP_price = clearing_price (snd (uniform_price_mechanism bids)),
        mechanism_quantity = 0, mechanism_price = Some 0,
        total_quantity = clearing_quantity (snd (uniform_price_mechanism bids))\<rparr>))"
proof -
  obtain L r where run: "uniform_price_mechanism bids = (L, r)"
    by (cases "uniform_price_mechanism bids")
  have "newton_raphson_adjustment (bids_uncovered bids) L FIT TOU
      = Some ((bids_uncovered bids, 0, 0), L)"
    using assms(3,4) by (simp add: newton_raphson_adjustment_def Let_def)
  then show ?thesis
    unfolding two_steps_UPNR_mechanism_def two_steps_run [OF run assms(1,2)]
    by (simp add: run)
qed

theorem newton_raphson_rejects_out_of_bounds_witness:
  "newton_price newton_example = Some 0.34 \<and> (0.25 :: rat) < 0.34
   \<and> newton_raphson_adjustment newton_example [] 0.10 0.25 = Some ((newton_example, 0, 0), [])"
proof -
  have p: "newton_price newton_example = Some 0.34"
    by (simp add: newton_example_price)
  have b: "(0.25 :: rat) < 0.34 \<or> (0.34 :: rat) < 0.10" by simp
  have "(0.25 :: rat) < 0.34" by simp
  with p newton_raphson_rejects_out_of_bounds [OF p b, of "[]"] show ?thesis by blast
qed

section \<open>The Monte-Carlo Shapley mechanism\<close>

text \<open>
  A table of bids has unique labels, so no label stands both in the column of the buy
  prices and in the column of the sell prices: after the alignment nothing is left to
  sum, and \<^verbatim>\<open>calculate_welfare\<close> is \<open>0\<close> on every coalition. Every marginal contribution
  is \<open>0\<close>, and the estimated Shapley values are \<open>0\<close> whatever orderings are drawn.
\<close>

lemma map_idx_sub_quantity: "map idx (sub_quantity b i q) = map idx b"
  by (simp add: sub_quantity_def comp_def if_distrib [of idx] cong: if_cong)

lemma map_idx_update_remaining: "map idx (update_remaining b L) = map idx b"
  unfolding update_remaining_def
  by (induction L arbitrary: b) (simp_all add: map_idx_sub_quantity)

lemma distinct_bids_uncovered:
  assumes "distinct (map idx bids)"
  shows "distinct (map idx (bids_uncovered bids))"
  unfolding bids_uncovered_def remaining_bids_def
  using assms by (intro distinct_map_filter) (simp add: map_idx_update_remaining)

lemma calculate_welfare_zero:
  assumes "inj_on idx (set rows)"
  shows "calculate_welfare rows = 0"
proof -
  have "filter (\<lambda>s. idx s = idx b) (filter (\<lambda>s. \<not> buying s) rows) = []"
    if "b \<in> set (filter buying rows)" for b
  proof -
    have "\<not> (idx s = idx b \<and> \<not> buying s)" if "s \<in> set rows" for s
    proof
      assume a: "idx s = idx b \<and> \<not> buying s"
      with assms \<open>s \<in> set rows\<close> \<open>b \<in> set (filter buying rows)\<close> have "s = b"
        by (auto dest: inj_onD)
      with a \<open>b \<in> set (filter buying rows)\<close> show False by simp
    qed
    then show ?thesis by (auto simp: filter_empty_conv)
  qed
  then have "concat (map (\<lambda>b. map (\<lambda>s. price b - price s)
                 (filter (\<lambda>s. idx s = idx b) (filter (\<lambda>s. \<not> buying s) rows)))
               (filter buying rows)) = []"
    by (simp del: filter_filter)
  then show ?thesis by (simp only: calculate_welfare_def sum_list.Nil)
qed

lemma set_loc_rows: "set (loc_rows bu S) \<subseteq> set bu"
  by (auto simp: loc_rows_def)

lemma welfare_of_coalition:
  assumes "distinct (map idx bu)"
  shows "calculate_welfare (loc_rows bu S) = 0"
proof -
  have "inj_on idx (set bu)" using assms by (simp add: distinct_map)
  then have "inj_on idx (set (loc_rows bu S))"
    using set_loc_rows by (rule inj_on_subset)
  then show ?thesis by (rule calculate_welfare_zero)
qed

lemma coalition_loop_unchanged:
  assumes "distinct (map idx bu)"
  shows "coalition_loop bu n ps (S, sv) = (S @ ps, sv)"
  by (induction ps arbitrary: S) (simp_all add: welfare_of_coalition [OF assms] Let_def)

lemma sampling_loop_values:
  assumes "distinct (map idx bu)"
  shows "fst (snd (sampling_loop shuffle bu n m (ps, sv, g))) = sv"
proof (induction m arbitrary: ps g)
  case 0
  show ?case by simp
next
  case (Suc m)
  obtain ps' g' where s: "shuffle g ps = (ps', g')" by (cases "shuffle g ps")
  show ?case
    by (simp add: s coalition_loop_unchanged [OF assms] Suc.IH)
qed

lemma monte_carlo_shapley_values_zero:
  assumes "distinct (map idx bu)"
  shows "fst (monte_carlo_shapley_values shuffle bu n g) = (\<lambda>p. 0)"
  unfolding monte_carlo_shapley_values_def
  using sampling_loop_values [OF assms, of shuffle n n "map idx bu" "\<lambda>p. 0" g]
  by (simp add: split_beta)

lemma cgts_result:
  assumes "distinct (map idx bu)"
  shows "fst (cooperative_game_theory_shapley_monte_carlo shuffle bu trs cap floor_p n g) =
     (if bu = [] then Inl ZeroDivisionError
      else Inr ((fst (pairwise_matching (\<lambda>i j. max floor_p (min 0 cap)) bu trs), 0),
                snd (pairwise_matching (\<lambda>i j. max floor_p (min 0 cap)) bu trs)))"
proof -
  obtain sv g' where m: "monte_carlo_shapley_values shuffle bu n g = (sv, g')"
    by (cases "monte_carlo_shapley_values shuffle bu n g")
  with monte_carlo_shapley_values_zero [OF assms, of shuffle n g] have sv: "sv = (\<lambda>p. 0)" by simp
  show ?thesis
    by (simp add: cooperative_game_theory_shapley_monte_carlo_def m sv split_beta Let_def)
qed

lemma two_steps_same_step:
  assumes "\<And>trs p. s1 (bids_uncovered bids) trs p = s2 (bids_uncovered bids) trs p"
  shows "two_steps s1 bids = two_steps s2 bids"
  by (simp add: two_steps_def split_beta Let_def assms)

subsection \<open>The example round under CGTS\<close>

lemma over_allocation_example_distinct: "distinct (map idx over_allocation_example)"
  by (simp add: over_allocation_example_def)

lemma over_allocation_example_CGTS:
  "fst (two_steps_CGTS_mechanism shuffle 0.10 0.25 100 10 n kwargs over_allocation_example g) =
     Some (Inr
       ([\<lparr>tx_bid = 2, tx_quantity = 5, tx_price = 0.10, tx_source = - 1, tx_active = False\<rparr>,
         \<lparr>tx_bid = 1, tx_quantity = 5, tx_price = 0.10, tx_source = - 1, tx_active = False\<rparr>,
         \<lparr>tx_bid = 3, tx_quantity = 4, tx_price = 10, tx_source = - 1, tx_active = False\<rparr>,
         \<lparr>tx_bid = 4, tx_quantity = 4, tx_price = 10, tx_source = - 1, tx_active = False\<rparr>,
         \<lparr>tx_bid = 3, tx_quantity = 8, tx_price = 10, tx_source = - 1, tx_active = False\<rparr>,
         \<lparr>tx_bid = 5, tx_quantity = 8, tx_price = 10, tx_source = - 1, tx_active = False\<rparr>],
        \<lparr>UP_quantity = 5, UP_price = Some 0.10, mechanism_quantity = - 2,
         mechanism_price = Some 0, total_quantity = 3\<rparr>))"
proof -
  note d = distinct_bids_uncovered [OF over_allocation_example_distinct]
  have ne: "bids_uncovered over_allocation_example \<noteq> []"
    by (simp add: over_allocation_example_uncovered)
  show ?thesis
    unfolding two_steps_CGTS_mechanism_def fst_conv
    by (subst two_steps_run [OF over_allocation_example_run])
       (simp_all add: over_allocation_example_uncovered(2,3) cgts_result [OF d] ne
          over_allocation_example_matching)
qed

lemma sampling_loop_numeral:
  "sampling_loop shuffle bu num_samples (numeral v) (participants, shapley_values, g) =
     (let (participants', g') = shuffle g participants;
          (S, shapley_values') =
             coalition_loop bu num_samples participants' ([], shapley_values)
      in sampling_loop shuffle bu num_samples (pred_numeral v) (participants', shapley_values', g'))"
  unfolding numeral_eq_Suc [of v] sampling_loop.simps ..

lemma sampling_loop_1:
  "sampling_loop shuffle bu num_samples 1 (participants, shapley_values, g) =
     (let (participants', g') = shuffle g participants;
          (S, shapley_values') =
             coalition_loop bu num_samples participants' ([], shapley_values)
      in (participants', shapley_values', g'))"
  unfolding One_nat_def sampling_loop.simps ..

lemma over_allocation_example_labels:
  "map idx (bids_uncovered over_allocation_example) = [3, 4, 5]"
  by (simp add: over_allocation_example_uncovered(1))

lemma rotated_orderings:
  "fst (sampling_loop rotate_shuffle (bids_uncovered over_allocation_example) 2 2
          (map idx (bids_uncovered over_allocation_example), (\<lambda>p. 0), 0)) = [3, 4, 5]"
  "fst (sampling_loop rotate_shuffle (bids_uncovered over_allocation_example) 2 2
          (map idx (bids_uncovered over_allocation_example), (\<lambda>p. 0), 1)) = [5, 3, 4]"
  by (simp_all add: sampling_loop_numeral sampling_loop_1 rotate_shuffle_def
      coalition_loop_unchanged [OF distinct_bids_uncovered [OF over_allocation_example_distinct]]
      over_allocation_example_labels rotate_def del: coalition_loop.simps)

lemma rotated_states:
  "snd (two_steps_CGTS_mechanism rotate_shuffle 0.10 0.25 100 10 2 kwargs over_allocation_example g)
     = Suc (Suc g)"
  by (simp add: two_steps_CGTS_mechanism_def over_allocation_example_uncovered(2,3)
      monte_carlo_shapley_values_def sampling_loop_numeral sampling_loop_1 rotate_shuffle_def
      coalition_loop_unchanged [OF distinct_bids_uncovered [OF over_allocation_example_distinct]]
      del: coalition_loop.simps)

subsection \<open>Claim C7: reproducibility without a seed\<close>

text \<open>
  Claim C7, amended. The mechanism has no seed parameter: it shuffles with the generator
  of the process and does not read the keyword arguments it is not written for. Its
  result does not depend on the orderings it draws: for two runs on the same bids (with
  unique identifiers) and the same bounds and sample count, the transactions, the
  summary and the Shapley values are the same for any two shuffles, generator states and
  remaining keyword arguments.
\<close>

theorem monte_carlo_shapley_reproducible:
  assumes "distinct (map idx bids)"
  shows "fst (two_steps_CGTS_mechanism shuffle1 FIT TOU cap floor_p n kwargs1 bids g1)
           = fst (two_steps_CGTS_mechanism shuffle2 FIT TOU cap floor_p n kwargs2 bids g2)
       \<and> fst (monte_carlo_shapley_values shuffle1 (bids_uncovered bids) n g1)
           = fst (monte_carlo_shapley_values shuffle2 (bids_uncovered bids) n g2)"
proof
  note d = distinct_bids_uncovered [OF assms]
  show "fst (two_steps_CGTS_mechanism shuffle1 FIT TOU cap floor_p n kwargs1 bids g1)
           = fst (two_steps_CGTS_mechanism shuffle2 FIT TOU cap floor_p n kwargs2 bids g2)"
    unfolding two_steps_CGTS_mechanism_def fst_conv
    by (rule two_steps_same_step) (simp only: cgts_result [OF d])
  show "fst (monte_carlo_shapley_values shuffle1 (bids_uncovered bids) n g1)
           = fst (monte_carlo_shapley_values shuffle2 (bids_uncovered bids) n g2)"
    by (simp only: monte_carlo_shapley_values_zero [OF d])
qed

theorem monte_carlo_shapley_reproducible_witness:
  "distinct (map idx over_allocation_example)
   \<and> fst (two_steps_CGTS_mechanism rotate_shuffle 0.10 0.25 100 10 2 [''seed'' \<mapsto> 42]
             over_allocation_example 0)
       = fst (two_steps_CGTS_mechanism rotate_shuffle 0.10 0.25 100 10 2 Map.empty
               over_allocation_example 7)
   \<and> fst (two_steps_CGTS_mechanism rotate_shuffle 0.10 0.25 100 10 2 Map.empty
             over_allocation_example 7) =
     Some (Inr
       ([\<lparr>tx_bid = 2, tx_quantity = 5, tx_price = 0.10, tx_source = - 1, tx_active = False\<rparr>,
         \<lparr>tx_bid = 1, tx_quantity = 5, tx_price = 0.10, tx_source = - 1, tx_active = False\<rparr>,
         \<lparr>tx_bid = 3, tx_quantity = 4, tx_price = 10, tx_source = - 1, tx_active = False\<rparr>,
         \<lparr>tx_bid = 4, tx_quantity = 4, tx_price = 10, tx_source = - 1, tx_active = False\<rparr>,
         \<lparr>tx_bid = 3, tx_quantity = 8, tx_price = 10, tx_source = - 1, tx_active = False\<rparr>,
         \<lparr>tx_bid = 5, tx_quantity = 8, tx_price = 10, tx_source = - 1, tx_active = False\<rparr>],
        \<lparr>UP_quantity = 5, UP_price = Some 0.10, mechanism_quantity = - 2,
         mechanism_price = Some 0, total_quantity = 3\<rparr>))"
  using monte_carlo_shapley_reproducible [OF over_allocation_example_distinct,
      of rotate_shuffle "0.10" "0.25" 100 10 2 "[''seed'' \<mapsto> 42]" 0 rotate_shuffle Map.empty 7]
    over_allocation_example_distinct
    over_allocation_example_CGTS [of rotate_shuffle 2 Map.empty 7]
  by blast

text \<open>
  The claim as stated fails in its second half: a seed handed to the mechanism does not
  fix its random ordering. With the keyword \<^verbatim>\<open>seed=42\<close> in both runs, the orderings drawn
  and the state the generator is left in follow the state the generator had before the
  call.
\<close>

theorem seed_keyword_ignored_counterexample:
  "fst (sampling_loop rotate_shuffle (bids_uncovered over_allocation_example) 2 2
          (map idx (bids_uncovered over_allocation_example), (\<lambda>p. 0), 0))
     \<noteq> fst (sampling_loop rotate_shuffle (bids_uncovered over_allocation_example) 2 2
          (map idx (bids_uncovered over_allocation_example), (\<lambda>p. 0), 1))
   \<and> snd (two_steps_CGTS_mechanism rotate_shuffle 0.10 0.25 100 10 2 [''seed'' \<mapsto> 42]
             over_allocation_example 0)
     \<noteq> snd (two_steps_CGTS_mechanism rotate_shuffle 0.10 0.25 100 10 2 [''seed'' \<mapsto> 42]
             over_allocation_example 1)"
  unfolding rotated_orderings rotated_states by simp

end
